theory Spec2Isabelle
  imports Main "HOL-Library.Word"
begin

section \<open>Data model\<close>

text \<open>
  Go's \<open>int\<close> on a 64-bit platform: a 64-bit two's-complement integer. Addition,
  subtraction and multiplication wrap around; comparisons are signed (\<open><s\<close>, \<open>\<le>s\<close>),
  and \<open>sint\<close> reads the value.
\<close>

type_synonym go_int = "64 word"

text \<open>
  \<open>len(xs)\<close> of a Go slice. A slice never has \<open>2 ^ 63\<close> or more elements, so the
  conversion is exact on every list the program can hold.
\<close>

definition len :: "'a list \<Rightarrow> go_int" where
  "len xs = of_nat (length xs)"

text \<open>
  A run-time panic of the Go program. The slice expression \<open>xs[lo:hi]\<close> panics unless
  \<open>0 \<le> lo \<le> hi \<le> cap(xs)\<close>. Every upper index in this program has been clamped to
  \<open>len(xs)\<close> before the slice expression is reached, so the bound is written with the
  length.
\<close>

datatype go_panic = SliceBoundsOutOfRange

definition go_slice :: "'a list \<Rightarrow> go_int \<Rightarrow> go_int \<Rightarrow> go_panic + 'a list" where
  "go_slice xs lo hi =
     (if 0 \<le> sint lo \<and> sint lo \<le> sint hi \<and> sint hi \<le> int (length xs)
      then Inr (take (nat (sint hi - sint lo)) (drop (nat (sint lo)) xs))
      else Inl SliceBoundsOutOfRange)"

text \<open>
  Modelled from the spec: the request and response types (\<open>SearchQuery\<close>,
  \<open>MultiField\<close>, \<open>TransactionRequest\<close>, \<open>TransactionCloneRequest\<close>, \<open>Transaction\<close>,
  \<open>CreditCard\<close>, \<open>Decimal\<close>, \<open>Response\<close>) are declared outside the files at hand.
  Only the fields that the gateway code reads or writes are given; the remaining
  content of a decoded entity is an opaque string. A search query is its list of
  fields; the field added by \<open>AddMultiField\<close> carries a name and its \<open>Items\<close>.
\<close>

datatype search_field = MultiField string "string list" | CriterionField string

record SearchQuery =
  Fields :: "search_field list"

text \<open>
  Modelled from the spec: the methods \<open>shallowCopy\<close> and \<open>AddMultiField\<close> of
  \<open>SearchQuery\<close> are missing from the files at hand. The page query is "a copy of the
  original search query with a multi-field \<open>ids\<close>": the copy has the fields of the
  original, and the original is left as it was.
\<close>

definition shallowCopy :: "SearchQuery \<Rightarrow> SearchQuery" where
  "shallowCopy s = \<lparr>Fields = Fields s\<rparr>"

text \<open>
  Modelled from the spec: \<open>q.AddMultiField(field).Items = items\<close> appends to the query
  a multi-field of the given name holding the given items.
\<close>

definition AddMultiField_Items :: "SearchQuery \<Rightarrow> string \<Rightarrow> string list \<Rightarrow> SearchQuery" where
  "AddMultiField_Items s field items = s\<lparr>Fields := Fields s @ [MultiField field items]\<rparr>"

datatype Decimal = Decimal int int

record TransactionRequest =
  Amount :: "Decimal option"

datatype TransactionCloneRequest = TransactionCloneRequest string

datatype Transaction = Transaction string

record CreditCard =
  Token :: string

text \<open>The value handed to \<open>execute\<close> for serialisation; \<open>NoPayload\<close> is Go's \<open>nil\<close>.\<close>

datatype payload =
    NoPayload
  | TransactionPayload TransactionRequest
  | ClonePayload TransactionCloneRequest
  | CardPayload CreditCard
  | QueryPayload SearchQuery

record Request =
  Method :: string
  Path :: string
  Payload :: payload

record Response =
  StatusCode :: go_int
  Body :: string

datatype error =
    ExecuteError string
  | InvalidResponseError Response
  | UnmarshalError string

text \<open>The unexported \<open>searchResults\<close> decoded from the ID search.\<close>

record searchResults =
  sr_PageSize :: go_int
  sr_IDs_Item :: "string list"

record TransactionSearchResult =
  TotalItems :: go_int
  TotalIDs :: "string list"
  CurrentPageNumber :: go_int
  PageSize :: go_int
  Transactions :: "Transaction list"
  searchQuery :: SearchQuery

text \<open>The exported \<open>SearchResult\<close> of the credit card gateway.\<close>

record SearchResult =
  cs_PageSize :: go_int
  cs_IDs :: "string list"

record CreditCardSearchResult =
  cc_TotalItems :: go_int
  cc_TotalIDs :: "string list"
  cc_CurrentPageNumber :: go_int
  cc_PageSize :: go_int
  cc_CreditCards :: "CreditCard list"

section \<open>The remote service\<close>

text \<open>
  The embedded \<open>*Braintree\<close> value with its \<open>execute\<close> method, the decoding methods of
  \<open>Response\<close> and the standard library's \<open>xml.Unmarshal\<close> and date formatting are
  parameters of the model. \<open>execute\<close> answers a request with an error or a response;
  its answer may depend on every request issued before. The state threaded through
  each operation is the list of requests issued so far, oldest first.
\<close>

type_synonym calls = "Request list"

type_synonym time = nat

record Braintree =
  execute :: "calls \<Rightarrow> Request \<Rightarrow> error + Response"
  transaction :: "Response \<Rightarrow> Transaction option \<times> error option"
  creditCard :: "Response \<Rightarrow> CreditCard option \<times> error option"
  unmarshal_searchResults :: "string \<Rightarrow> error + searchResults"
  unmarshal_transactions :: "string \<Rightarrow> error + Transaction list"
  unmarshal_creditCards :: "string \<Rightarrow> error + CreditCard list"
  format_012006 :: "time \<Rightarrow> string"

definition do_execute ::
  "Braintree \<Rightarrow> string \<Rightarrow> string \<Rightarrow> payload \<Rightarrow> calls \<Rightarrow> (error + Response) \<times> calls" where
  "do_execute g m p x cs =
     (let req = \<lparr>Method = m, Path = p, Payload = x\<rparr> in (execute g cs req, cs @ [req]))"

section \<open>The transaction gateway\<close>

text \<open>
  Every operation takes the gateway and the requests issued so far, and returns Go's
  pair of result and error (\<open>None\<close> is \<open>nil\<close>) together with the requests issued
  after it. Pointer arguments are taken to be non-nil. \<open>Settle\<close> only delegates to the
  testing gateway, which is not part of the files at hand, and is left out.
\<close>

definition Create ::
  "Braintree \<Rightarrow> TransactionRequest \<Rightarrow> calls \<Rightarrow> (Transaction option \<times> error option) \<times> calls" where
  "Create g tx cs =
     (case do_execute g ''POST'' ''transactions'' (TransactionPayload tx) cs of
        (Inl err, cs') \<Rightarrow> ((None, Some err), cs')
      | (Inr resp, cs') \<Rightarrow>
          (if StatusCode resp = 201 then (transaction g resp, cs')
           else ((None, Some (InvalidResponseError resp)), cs')))"

definition Clone ::
  "Braintree \<Rightarrow> string \<Rightarrow> TransactionCloneRequest \<Rightarrow> calls \<Rightarrow> (Transaction option \<times> error option) \<times> calls" where
  "Clone g tid tx cs =
     (case do_execute g ''POST'' (''transactions/'' @ tid @ ''/clone'') (ClonePayload tx) cs of
        (Inl err, cs') \<Rightarrow> ((None, Some err), cs')
      | (Inr resp, cs') \<Rightarrow>
          (if StatusCode resp = 201 then (transaction g resp, cs')
           else ((None, Some (InvalidResponseError resp)), cs')))"

text \<open>
  The optional amount of \<open>SubmitForSettlement\<close> and \<open>Refund\<close> is a variadic parameter:
  with no amount the request pointer stays \<open>nil\<close>, otherwise the request carries the
  first amount given.
\<close>

definition amount_request :: "Decimal option list \<Rightarrow> payload" where
  "amount_request amount =
     (if 0 < length amount then TransactionPayload \<lparr>Amount = hd amount\<rparr> else NoPayload)"

definition SubmitForSettlement ::
  "Braintree \<Rightarrow> string \<Rightarrow> Decimal option list \<Rightarrow> calls \<Rightarrow> (Transaction option \<times> error option) \<times> calls" where
  "SubmitForSettlement g tid amount cs =
     (case do_execute g ''PUT'' (''transactions/'' @ tid @ ''/submit_for_settlement'') (amount_request amount) cs of
        (Inl err, cs') \<Rightarrow> ((None, Some err), cs')
      | (Inr resp, cs') \<Rightarrow>
          (if StatusCode resp = 200 then (transaction g resp, cs')
           else ((None, Some (InvalidResponseError resp)), cs')))"

definition Void ::
  "Braintree \<Rightarrow> string \<Rightarrow> calls \<Rightarrow> (Transaction option \<times> error option) \<times> calls" where
  "Void g tid cs =
     (case do_execute g ''PUT'' (''transactions/'' @ tid @ ''/void'') NoPayload cs of
        (Inl err, cs') \<Rightarrow> ((None, Some err), cs')
      | (Inr resp, cs') \<Rightarrow>
          (if StatusCode resp = 200 then (transaction g resp, cs')
           else ((None, Some (InvalidResponseError resp)), cs')))"

definition CancelRelease ::
  "Braintree \<Rightarrow> string \<Rightarrow> calls \<Rightarrow> (Transaction option \<times> error option) \<times> calls" where
  "CancelRelease g tid cs =
     (case do_execute g ''PUT'' (''transactions/'' @ tid @ ''/cancel_release'') NoPayload cs of
        (Inl err, cs') \<Rightarrow> ((None, Some err), cs')
      | (Inr resp, cs') \<Rightarrow>
          (if StatusCode resp = 200 then (transaction g resp, cs')
           else ((None, Some (InvalidResponseError resp)), cs')))"

definition ReleaseFromEscrow ::
  "Braintree \<Rightarrow> string \<Rightarrow> calls \<Rightarrow> (Transaction option \<times> error option) \<times> calls" where
  "ReleaseFromEscrow g tid cs =
     (case do_execute g ''PUT'' (''transactions/'' @ tid @ ''/release_from_escrow'') NoPayload cs of
        (Inl err, cs') \<Rightarrow> ((None, Some err), cs')
      | (Inr resp, cs') \<Rightarrow>
          (if StatusCode resp = 200 then (transaction g resp, cs')
           else ((None, Some (InvalidResponseError resp)), cs')))"

definition HoldInEscrow ::
  "Braintree \<Rightarrow> string \<Rightarrow> calls \<Rightarrow> (Transaction option \<times> error option) \<times> calls" where
  "HoldInEscrow g tid cs =
     (case do_execute g ''PUT'' (''transactions/'' @ tid @ ''/hold_in_escrow'') NoPayload cs of
        (Inl err, cs') \<Rightarrow> ((None, Some err), cs')
      | (Inr resp, cs') \<Rightarrow>
          (if StatusCode resp = 200 then (transaction g resp, cs')
           else ((None, Some (InvalidResponseError resp)), cs')))"

definition Refund ::
  "Braintree \<Rightarrow> string \<Rightarrow> Decimal option list \<Rightarrow> calls \<Rightarrow> (Transaction option \<times> error option) \<times> calls" where
  "Refund g tid amount cs =
     (case do_execute g ''POST'' (''transactions/'' @ tid @ ''/refund'') (amount_request amount) cs of
        (Inl err, cs') \<Rightarrow> ((None, Some err), cs')
      | (Inr resp, cs') \<Rightarrow>
          (if StatusCode resp = 200 \<or> StatusCode resp = 201 then (transaction g resp, cs')
           else ((None, Some (InvalidResponseError resp)), cs')))"

definition Find ::
  "Braintree \<Rightarrow> string \<Rightarrow> calls \<Rightarrow> (Transaction option \<times> error option) \<times> calls" where
  "Find g tid cs =
     (case do_execute g ''GET'' (''transactions/'' @ tid) NoPayload cs of
        (Inl err, cs') \<Rightarrow> ((None, Some err), cs')
      | (Inr resp, cs') \<Rightarrow>
          (if StatusCode resp = 200 then (transaction g resp, cs')
           else ((None, Some (InvalidResponseError resp)), cs')))"

definition fetchTransactionIDs ::
  "Braintree \<Rightarrow> SearchQuery \<Rightarrow> calls \<Rightarrow> (error + searchResults) \<times> calls" where
  "fetchTransactionIDs g query cs =
     (case do_execute g ''POST'' ''transactions/advanced_search_ids'' (QueryPayload query) cs of
        (Inl err, cs') \<Rightarrow> (Inl err, cs')
      | (Inr resp, cs') \<Rightarrow>
          (case unmarshal_searchResults g (Body resp) of
             Inl err \<Rightarrow> (Inl err, cs')
           | Inr v \<Rightarrow> (Inr v, cs')))"

text \<open>A \<open>nil\<close> slice of transactions is the empty list.\<close>

definition fetchTransactions ::
  "Braintree \<Rightarrow> SearchQuery \<Rightarrow> calls \<Rightarrow> (Transaction list \<times> error option) \<times> calls" where
  "fetchTransactions g query cs =
     (case do_execute g ''POST'' ''transactions/advanced_search'' (QueryPayload query) cs of
        (Inl err, cs') \<Rightarrow> (([], Some err), cs')
      | (Inr resp, cs') \<Rightarrow>
          (case unmarshal_transactions g (Body resp) of
             Inl err \<Rightarrow> (([], Some err), cs')
           | Inr v \<Rightarrow> ((v, None), cs')))"

text \<open>
  \<open>Search\<close> and \<open>SearchNext\<close> can panic in their slice expression, so their outcome is
  a panic or Go's pair of result and error.
\<close>

definition Search ::
  "Braintree \<Rightarrow> SearchQuery \<Rightarrow> calls \<Rightarrow>
     (go_panic + TransactionSearchResult option \<times> error option) \<times> calls" where
  "Search g query cs =
     (case fetchTransactionIDs g query cs of
        (Inl err, cs1) \<Rightarrow> (Inr (None, Some err), cs1)
      | (Inr searchResult, cs1) \<Rightarrow>
          (let pageSize = sr_PageSize searchResult;
               ids = sr_IDs_Item searchResult;
               endOffset = pageSize;
               endOffset = (if len ids <s endOffset then len ids else endOffset);
               firstPageQuery = shallowCopy query
           in case go_slice ids 0 endOffset of
                Inl p \<Rightarrow> (Inl p, cs1)
              | Inr page \<Rightarrow>
                  (case fetchTransactions g (AddMultiField_Items firstPageQuery ''ids'' page) cs1 of
                     ((firstPageTransactions, err), cs2) \<Rightarrow>
                       (Inr (Some \<lparr>TotalItems = len ids,
                                   TotalIDs = ids,
                                   CurrentPageNumber = 1,
                                   PageSize = pageSize,
                                   Transactions = firstPageTransactions,
                                   searchQuery = query\<rparr>, err), cs2))))"

definition SearchNext ::
  "Braintree \<Rightarrow> TransactionSearchResult \<Rightarrow> calls \<Rightarrow>
     (go_panic + TransactionSearchResult option \<times> error option) \<times> calls" where
  "SearchNext g result cs =
     (let startOffset = CurrentPageNumber result * PageSize result;
          endOffset = startOffset + PageSize result;
          endOffset = (if len (TotalIDs result) <s endOffset then len (TotalIDs result)
                       else endOffset)
      in if endOffset \<le>s startOffset then (Inr (None, None), cs)
         else
           (let nextPageQuery = shallowCopy (searchQuery result)
            in case go_slice (TotalIDs result) startOffset endOffset of
                 Inl p \<Rightarrow> (Inl p, cs)
               | Inr page \<Rightarrow>
                   (case fetchTransactions g (AddMultiField_Items nextPageQuery ''ids'' page) cs of
                      ((nextPageTransactions, err), cs') \<Rightarrow>
                        (Inr (Some \<lparr>TotalItems = TotalItems result,
                                    TotalIDs = TotalIDs result,
                                    CurrentPageNumber = CurrentPageNumber result + 1,
                                    PageSize = PageSize result,
                                    Transactions = nextPageTransactions,
                                    searchQuery = searchQuery result\<rparr>, err), cs'))))"

section \<open>The credit card gateway\<close>

definition CreditCard_Create ::
  "Braintree \<Rightarrow> CreditCard \<Rightarrow> calls \<Rightarrow> (CreditCard option \<times> error option) \<times> calls" where
  "CreditCard_Create g cc cs =
     (case do_execute g ''POST'' ''payment_methods'' (CardPayload cc) cs of
        (Inl err, cs') \<Rightarrow> ((None, Some err), cs')
      | (Inr resp, cs') \<Rightarrow>
          (if StatusCode resp = 201 then (creditCard g resp, cs')
           else ((None, Some (InvalidResponseError resp)), cs')))"

definition CreditCard_Update ::
  "Braintree \<Rightarrow> CreditCard \<Rightarrow> calls \<Rightarrow> (CreditCard option \<times> error option) \<times> calls" where
  "CreditCard_Update g cc cs =
     (case do_execute g ''PUT'' (''payment_methods/'' @ Token cc) (CardPayload cc) cs of
        (Inl err, cs') \<Rightarrow> ((None, Some err), cs')
      | (Inr resp, cs') \<Rightarrow>
          (if StatusCode resp = 200 then (creditCard g resp, cs')
           else ((None, Some (InvalidResponseError resp)), cs')))"

definition CreditCard_Find ::
  "Braintree \<Rightarrow> string \<Rightarrow> calls \<Rightarrow> (CreditCard option \<times> error option) \<times> calls" where
  "CreditCard_Find g token cs =
     (case do_execute g ''GET'' (''payment_methods/'' @ token) NoPayload cs of
        (Inl err, cs') \<Rightarrow> ((None, Some err), cs')
      | (Inr resp, cs') \<Rightarrow>
          (if StatusCode resp = 200 then (creditCard g resp, cs')
           else ((None, Some (InvalidResponseError resp)), cs')))"

text \<open>\<open>Delete\<close> returns an error only.\<close>

definition CreditCard_Delete :: "Braintree \<Rightarrow> CreditCard \<Rightarrow> calls \<Rightarrow> error option \<times> calls" where
  "CreditCard_Delete g cc cs =
     (case do_execute g ''DELETE'' (''payment_methods/'' @ Token cc) NoPayload cs of
        (Inl err, cs') \<Rightarrow> (Some err, cs')
      | (Inr resp, cs') \<Rightarrow>
          (if StatusCode resp = 200 then (None, cs')
           else (Some (InvalidResponseError resp), cs')))"

text \<open>
  The query string built from \<open>url.Values\<close> with the keys \<open>start\<close> and \<open>end\<close>:
  \<open>Encode\<close> sorts by key, and the six digits of a formatted date need no escaping.
\<close>

definition expiring_qs :: "Braintree \<Rightarrow> time \<Rightarrow> time \<Rightarrow> string" where
  "expiring_qs g fromDate toDate =
     ''end='' @ format_012006 g toDate @ ''&start='' @ format_012006 g fromDate"

text \<open>
  The structure decoded here has the shape of \<open>searchResults\<close> (a page size and the
  items of the ID list), so the same decoder stands for it.
\<close>

definition ExpiringBetweenIDs ::
  "Braintree \<Rightarrow> time \<Rightarrow> time \<Rightarrow> calls \<Rightarrow> (SearchResult option \<times> error option) \<times> calls" where
  "ExpiringBetweenIDs g fromDate toDate cs =
     (case do_execute g ''POST''
             (''/payment_methods/all/expiring_ids?'' @ expiring_qs g fromDate toDate) NoPayload cs of
        (Inl err, cs') \<Rightarrow> ((None, Some err), cs')
      | (Inr resp, cs') \<Rightarrow>
          (case unmarshal_searchResults g (Body resp) of
             Inl err \<Rightarrow> ((None, Some err), cs')
           | Inr searchResult \<Rightarrow>
               ((Some \<lparr>cs_PageSize = sr_PageSize searchResult,
                       cs_IDs = sr_IDs_Item searchResult\<rparr>, None), cs')))"

definition fetchExpiringBetween ::
  "Braintree \<Rightarrow> SearchQuery \<Rightarrow> time \<Rightarrow> time \<Rightarrow> calls \<Rightarrow>
     (CreditCard list \<times> error option) \<times> calls" where
  "fetchExpiringBetween g query fromDate toDate cs =
     (case do_execute g ''POST''
             (''/payment_methods/all/expiring?'' @ expiring_qs g fromDate toDate)
             (QueryPayload query) cs of
        (Inl err, cs') \<Rightarrow> (([], Some err), cs')
      | (Inr resp, cs') \<Rightarrow>
          (case unmarshal_creditCards g (Body resp) of
             Inl err \<Rightarrow> (([], Some err), cs')
           | Inr v \<Rightarrow> ((v, None), cs')))"

definition ExpiringBetweenPage ::
  "Braintree \<Rightarrow> time \<Rightarrow> time \<Rightarrow> SearchResult \<Rightarrow> go_int \<Rightarrow> calls \<Rightarrow>
     (go_panic + CreditCardSearchResult option \<times> error option) \<times> calls" where
  "ExpiringBetweenPage g fromDate toDate searchResult page cs =
     (let startOffset = (page - 1) * cs_PageSize searchResult;
          endOffset = startOffset + cs_PageSize searchResult;
          endOffset = (if len (cs_IDs searchResult) <s endOffset then len (cs_IDs searchResult)
                       else endOffset)
      in if endOffset \<le>s startOffset then (Inr (None, None), cs)
         else
           (let query = \<lparr>Fields = []\<rparr>
            in case go_slice (cs_IDs searchResult) startOffset endOffset of
                 Inl p \<Rightarrow> (Inl p, cs)
               | Inr page_ids \<Rightarrow>
                   (case fetchExpiringBetween g (AddMultiField_Items query ''ids'' page_ids)
                           fromDate toDate cs of
                      ((creditCards, err), cs') \<Rightarrow>
                        (Inr (Some \<lparr>cc_TotalItems = len (cs_IDs searchResult),
                                    cc_TotalIDs = cs_IDs searchResult,
                                    cc_CurrentPageNumber = page,
                                    cc_PageSize = cs_PageSize searchResult,
                                    cc_CreditCards = creditCards\<rparr>, err), cs'))))"

section \<open>The gateway of package \<open>src/braintree\<close>\<close>

text \<open>
  The second source file is a package of its own with its own \<open>TransactionGateway\<close>;
  its names carry the prefix \<open>bt\<close>. \<open>Configuration\<close> and \<open>TransactionRequest\<close> are
  declared outside the file and stay type parameters.
\<close>

datatype 'c bt_Gateway = Gateway (config: 'c)

datatype 'c bt_TransactionGateway = TransactionGateway (parent: "'c bt_Gateway")

datatype bt_TransactionResponse = TransactionResponse

definition NewGateway :: "'c \<Rightarrow> 'c bt_Gateway" where
  "NewGateway c = Gateway c"

definition bt_Transaction :: "'c bt_Gateway \<Rightarrow> 'c bt_TransactionGateway" where
  "bt_Transaction this = TransactionGateway this"

definition Sale :: "'c bt_TransactionGateway \<Rightarrow> 'r \<Rightarrow> bt_TransactionResponse" where
  "Sale this request = TransactionResponse"

definition IsSuccess :: "bt_TransactionResponse \<Rightarrow> bool" where
  "IsSuccess this = False"

section \<open>Page offsets\<close>

text \<open>
  The two offsets that \<open>SearchNext\<close> computes before its slice expression, as
  functions of the input result.
\<close>

definition next_startOffset :: "TransactionSearchResult \<Rightarrow> go_int" where
  "next_startOffset result = CurrentPageNumber result * PageSize result"

definition next_endOffset :: "TransactionSearchResult \<Rightarrow> go_int" where
  "next_endOffset result =
     (let endOffset = next_startOffset result + PageSize result
      in if len (TotalIDs result) <s endOffset then len (TotalIDs result) else endOffset)"

text \<open>The same for \<open>ExpiringBetweenPage\<close>, as functions of the ID search result and the page.\<close>

definition page_startOffset :: "SearchResult \<Rightarrow> go_int \<Rightarrow> go_int" where
  "page_startOffset searchResult page = (page - 1) * cs_PageSize searchResult"

definition page_endOffset :: "SearchResult \<Rightarrow> go_int \<Rightarrow> go_int" where
  "page_endOffset searchResult page =
     (let endOffset = page_startOffset searchResult page + cs_PageSize searchResult
      in if len (cs_IDs searchResult) <s endOffset then len (cs_IDs searchResult)
         else endOffset)"

text \<open>
  The specification's page bounds over the mathematical integers: page \<open>N\<close> of a list
  of \<open>totalCount\<close> IDs is the half-open interval from \<open>(N - 1) * pageSize\<close> to
  \<open>min (N * pageSize) totalCount\<close>.
\<close>

definition spec_page_start :: "int \<Rightarrow> int \<Rightarrow> int" where
  "spec_page_start N pageSize = (N - 1) * pageSize"

definition spec_page_end :: "int \<Rightarrow> int \<Rightarrow> int \<Rightarrow> int" where
  "spec_page_end N pageSize totalCount = min (N * pageSize) totalCount"

definition spec_page_ids :: "int \<Rightarrow> int \<Rightarrow> 'a list \<Rightarrow> 'a list" where
  "spec_page_ids N pageSize ids =
     take (nat (spec_page_end N pageSize (int (length ids)) - spec_page_start N pageSize))
       (drop (nat (spec_page_start N pageSize)) ids)"

section \<open>Walking all pages\<close>

text \<open>
  The iteration that the specification speaks of: \<open>SearchNext\<close> is applied to the
  latest page result until it returns nil, whatever error accompanies a page. The
  outcome is a panic or the list of page results, with the requests issued. The
  number of rounds is bounded by \<open>fuel\<close>; \<open>None\<close> means that the bound was reached
  before \<open>SearchNext\<close> returned nil.
\<close>

fun iterate_SearchNext ::
  "nat \<Rightarrow> Braintree \<Rightarrow> TransactionSearchResult \<Rightarrow> calls \<Rightarrow>
     ((go_panic + TransactionSearchResult list) \<times> calls) option" where
  "iterate_SearchNext 0 g result cs = None"
| "iterate_SearchNext (Suc fuel) g result cs =
     (case SearchNext g result cs of
        (Inl p, cs') \<Rightarrow> Some (Inl p, cs')
      | (Inr (None, err), cs') \<Rightarrow> Some (Inr [], cs')
      | (Inr (Some r, err), cs') \<Rightarrow>
          (case iterate_SearchNext fuel g r cs' of
             None \<Rightarrow> None
           | Some (Inl p, cs'') \<Rightarrow> Some (Inl p, cs'')
           | Some (Inr rs, cs'') \<Rightarrow> Some (Inr (r # rs), cs'')))"

text \<open>\<open>Search\<close> followed by that iteration.\<close>

definition Search_all_pages ::
  "nat \<Rightarrow> Braintree \<Rightarrow> SearchQuery \<Rightarrow> calls \<Rightarrow>
     ((go_panic + TransactionSearchResult list) \<times> calls) option" where
  "Search_all_pages fuel g query cs =
     (case Search g query cs of
        (Inl p, cs') \<Rightarrow> Some (Inl p, cs')
      | (Inr (None, err), cs') \<Rightarrow> Some (Inr [], cs')
      | (Inr (Some r, err), cs') \<Rightarrow>
          (case iterate_SearchNext fuel g r cs' of
             None \<Rightarrow> None
           | Some (Inl p, cs'') \<Rightarrow> Some (Inl p, cs'')
           | Some (Inr rs, cs'') \<Rightarrow> Some (Inr (r # rs), cs'')))"

text \<open>
  The pages of the specification: an ID list cut into consecutive pieces of \<open>p\<close> IDs,
  the last one possibly shorter. \<open>later_pages\<close> has no page for an empty list;
  \<open>all_pages\<close> always has a first page, as \<open>Search\<close> always fetches one.
\<close>

function later_pages :: "nat \<Rightarrow> 'a list \<Rightarrow> 'a list list" where
  "later_pages p xs = (if p = 0 \<or> xs = [] then [] else take p xs # later_pages p (drop p xs))"
  by pat_completeness auto
termination
  by (relation "measure (\<lambda>(p, xs). length xs)") auto

declare later_pages.simps [simp del]

definition all_pages :: "nat \<Rightarrow> 'a list \<Rightarrow> 'a list list" where
  "all_pages p xs = take p xs # later_pages p (drop p xs)"

text \<open>The request by which \<open>fetchTransactions\<close> fetches the page with the given IDs.\<close>

definition page_request :: "SearchQuery \<Rightarrow> string list \<Rightarrow> Request" where
  "page_request query page =
     \<lparr>Method = ''POST'', Path = ''transactions/advanced_search'',
      Payload = QueryPayload \<lparr>Fields = Fields query @ [MultiField ''ids'' page]\<rparr>\<rparr>"

section \<open>A gateway for concrete runs\<close>

text \<open>
  A gateway whose \<open>execute\<close> is given and whose decoders are fixed: every body decodes
  to the entity named by the body, and the ID search decodes to the given result.
\<close>

definition stub_gateway :: "(calls \<Rightarrow> Request \<Rightarrow> error + Response) \<Rightarrow> searchResults \<Rightarrow> Braintree" where
  "stub_gateway exec v =
     \<lparr>execute = exec,
      transaction = (\<lambda>resp. (Some (Transaction (Body resp)), None)),
      creditCard = (\<lambda>resp. (Some \<lparr>Token = Body resp\<rparr>, None)),
      unmarshal_searchResults = (\<lambda>body. Inr v),
      unmarshal_transactions = (\<lambda>body. Inr [Transaction body]),
      unmarshal_creditCards = (\<lambda>body. Inr [\<lparr>Token = body\<rparr>]),
      format_012006 = (\<lambda>t. ''012030'')\<rparr>"

text \<open>A remote service that answers every request with the given status and body.\<close>

definition always :: "go_int \<Rightarrow> string \<Rightarrow> calls \<Rightarrow> Request \<Rightarrow> error + Response" where
  "always status body cs req = Inr \<lparr>StatusCode = status, Body = body\<rparr>"

text \<open>
  A remote service that answers the first \<open>n\<close> requests with the given status and
  body, and fails on every later one.
\<close>

definition fails_from :: "nat \<Rightarrow> go_int \<Rightarrow> string \<Rightarrow> calls \<Rightarrow> Request \<Rightarrow> error + Response" where
  "fails_from n status body cs req =
     (if length cs < n then Inr \<lparr>StatusCode = status, Body = body\<rparr>
      else Inl (ExecuteError ''timeout''))"

text \<open>
  The same gateway, except that every response that \<open>execute\<close> hands back has its
  status code replaced by the one that \<open>f\<close> gives for it.
\<close>

definition with_status :: "(Response \<Rightarrow> go_int) \<Rightarrow> Braintree \<Rightarrow> Braintree" where
  "with_status f g =
     g\<lparr>execute := (\<lambda>cs req. case execute g cs req of
                                 Inl err \<Rightarrow> Inl err
                               | Inr resp \<Rightarrow> Inr (resp\<lparr>StatusCode := f resp\<rparr>))\<rparr>"

section \<open>Properties\<close>

subsection \<open>The operations in terms of their offsets\<close>

lemma shallowCopy_eq: "shallowCopy s = s"
  by (cases s) (simp add: shallowCopy_def)

lemma SearchNext_offsets:
  "SearchNext g result cs =
     (if next_endOffset result \<le>s next_startOffset result then (Inr (None, None), cs)
      else case go_slice (TotalIDs result) (next_startOffset result) (next_endOffset result) of
             Inl p \<Rightarrow> (Inl p, cs)
           | Inr page \<Rightarrow>
               (case fetchTransactions g (AddMultiField_Items (searchQuery result) ''ids'' page) cs of
                  ((ts, err), cs') \<Rightarrow>
                    (Inr (Some \<lparr>TotalItems = TotalItems result,
                                TotalIDs = TotalIDs result,
                                CurrentPageNumber = CurrentPageNumber result + 1,
                                PageSize = PageSize result,
                                Transactions = ts,
                                searchQuery = searchQuery result\<rparr>, err), cs')))"
  by (simp add: SearchNext_def next_startOffset_def next_endOffset_def Let_def shallowCopy_eq)

lemma ExpiringBetweenPage_offsets:
  "ExpiringBetweenPage g fromDate toDate sr page cs =
     (if page_endOffset sr page \<le>s page_startOffset sr page then (Inr (None, None), cs)
      else case go_slice (cs_IDs sr) (page_startOffset sr page) (page_endOffset sr page) of
             Inl p \<Rightarrow> (Inl p, cs)
           | Inr page_ids \<Rightarrow>
               (case fetchExpiringBetween g (AddMultiField_Items \<lparr>Fields = []\<rparr> ''ids'' page_ids)
                       fromDate toDate cs of
                  ((creditCards, err), cs') \<Rightarrow>
                    (Inr (Some \<lparr>cc_TotalItems = len (cs_IDs sr),
                                cc_TotalIDs = cs_IDs sr,
                                cc_CurrentPageNumber = page,
                                cc_PageSize = cs_PageSize sr,
                                cc_CreditCards = creditCards\<rparr>, err), cs')))"
  by (simp add: ExpiringBetweenPage_def page_startOffset_def page_endOffset_def Let_def)

lemma next_endOffset_le_len: "next_endOffset result \<le>s len (TotalIDs result)"
  by (simp add: next_endOffset_def Let_def word_sle_eq word_sless_alt)

lemma page_endOffset_le_len: "page_endOffset sr page \<le>s len (cs_IDs sr)"
  by (simp add: page_endOffset_def Let_def word_sle_eq word_sless_alt)

lemma sint_len: "length xs < 2 ^ 63 \<Longrightarrow> sint (len xs) = int (length xs)"
  unfolding len_def
  by (simp add: signed_of_nat signed_take_bit_int_eq_self)

lemma go_slice_Inr:
  "0 \<le> sint lo \<Longrightarrow> sint lo \<le> sint hi \<Longrightarrow> sint hi \<le> int (length xs) \<Longrightarrow>
   go_slice xs lo hi = Inr (take (nat (sint hi - sint lo)) (drop (nat (sint lo)) xs))"
  by (simp add: go_slice_def)

lemma go_slice_Inr_iff:
  "go_slice xs lo hi = Inr ys \<longleftrightarrow>
     0 \<le> sint lo \<and> sint lo \<le> sint hi \<and> sint hi \<le> int (length xs) \<and>
     ys = take (nat (sint hi - sint lo)) (drop (nat (sint lo)) xs)"
  by (auto simp add: go_slice_def)

lemma fetchTransactions_eq:
  "fetchTransactions g q cs =
     ((case execute g cs \<lparr>Method = ''POST'', Path = ''transactions/advanced_search'',
                          Payload = QueryPayload q\<rparr> of
         Inl e \<Rightarrow> ([], Some e)
       | Inr resp \<Rightarrow> (case unmarshal_transactions g (Body resp) of
                       Inl e \<Rightarrow> ([], Some e) | Inr v \<Rightarrow> (v, None))),
      cs @ [\<lparr>Method = ''POST'', Path = ''transactions/advanced_search'',
             Payload = QueryPayload q\<rparr>])"
  by (simp add: fetchTransactions_def do_execute_def Let_def split: sum.splits)

lemma fetchExpiringBetween_eq:
  "fetchExpiringBetween g q fromDate toDate cs =
     ((case execute g cs \<lparr>Method = ''POST'',
                          Path = ''/payment_methods/all/expiring?'' @ expiring_qs g fromDate toDate,
                          Payload = QueryPayload q\<rparr> of
         Inl e \<Rightarrow> ([], Some e)
       | Inr resp \<Rightarrow> (case unmarshal_creditCards g (Body resp) of
                       Inl e \<Rightarrow> ([], Some e) | Inr v \<Rightarrow> (v, None))),
      cs @ [\<lparr>Method = ''POST'',
             Path = ''/payment_methods/all/expiring?'' @ expiring_qs g fromDate toDate,
             Payload = QueryPayload q\<rparr>])"
  by (simp add: fetchExpiringBetween_def do_execute_def Let_def split: sum.splits)

subsection \<open>Offsets without overflow\<close>

lemma sint_mult_exact:
  fixes a b :: go_int
  assumes "- (2 ^ 63) \<le> sint a * sint b" "sint a * sint b < 2 ^ 63"
  shows "sint (a * b) = sint a * sint b"
  using assms by (simp add: sint_word_ariths signed_take_bit_int_eq_self)

lemma sint_add_exact:
  fixes a b :: go_int
  assumes "- (2 ^ 63) \<le> sint a + sint b" "sint a + sint b < 2 ^ 63"
  shows "sint (a + b) = sint a + sint b"
  using assms by (simp add: sint_word_ariths signed_take_bit_int_eq_self)

lemma sint_pred_exact:
  fixes a :: go_int
  assumes "- (2 ^ 63) < sint a"
  shows "sint (a - 1) = sint a - 1"
proof -
  have "sint a < 2 ^ 63" using sint_lt [of a] by simp
  with assms show ?thesis
    by (simp add: sint_word_ariths signed_take_bit_int_eq_self)
qed

lemma sint_succ_exact:
  fixes a :: go_int
  assumes "sint a < 2 ^ 63 - 1"
  shows "sint (a + 1) = sint a + 1"
proof -
  have "- (2 ^ 63) \<le> sint a" using sint_ge [of a] by simp
  with assms show ?thesis
    by (simp add: sint_word_ariths signed_take_bit_int_eq_self)
qed

text \<open>The clamped end offset, when the sum does not overflow.\<close>

lemma sint_clamped_end:
  fixes start ps :: go_int
  assumes "- (2 ^ 63) \<le> sint start + sint ps" "sint start + sint ps < 2 ^ 63"
    and "length ids < 2 ^ 63"
  shows "sint (if len ids <s start + ps then len ids else start + ps)
         = min (sint start + sint ps) (int (length ids))"
  using assms by (simp add: word_sless_alt sint_len sint_add_exact)

lemma page_offsets_exact:
  assumes "0 \<le> sint (cs_PageSize sr)" "1 \<le> sint N"
    and "sint N * sint (cs_PageSize sr) < 2 ^ 63"
    and "length (cs_IDs sr) < 2 ^ 63"
  shows "sint (page_startOffset sr N) = spec_page_start (sint N) (sint (cs_PageSize sr))"
    and "sint (page_endOffset sr N)
           = spec_page_end (sint N) (sint (cs_PageSize sr)) (int (length (cs_IDs sr)))"
proof -
  let ?ps = "cs_PageSize sr"
  have p: "sint (N - 1) = sint N - 1"
    using assms(2) by (simp add: sint_pred_exact)
  have le: "(sint N - 1) * sint ?ps \<le> sint N * sint ?ps"
    using assms(1) by (simp add: algebra_simps)
  have ge: "0 \<le> (sint N - 1) * sint ?ps"
    using assms(1,2) by simp
  have s: "sint ((N - 1) * ?ps) = (sint N - 1) * sint ?ps"
    using le ge assms(3) by (simp add: sint_mult_exact p)
  show "sint (page_startOffset sr N) = spec_page_start (sint N) (sint ?ps)"
    by (simp add: page_startOffset_def spec_page_start_def s)
  have sum: "sint ((N - 1) * ?ps) + sint ?ps = sint N * sint ?ps"
    unfolding s by (simp add: algebra_simps)
  have "sint (if len (cs_IDs sr) <s (N - 1) * ?ps + ?ps then len (cs_IDs sr)
              else (N - 1) * ?ps + ?ps)
        = min (sint ((N - 1) * ?ps) + sint ?ps) (int (length (cs_IDs sr)))"
  proof (rule sint_clamped_end)
    have "0 \<le> sint N * sint ?ps" using assms(1,2) by simp
    then show "- (2 ^ 63) \<le> sint ((N - 1) * ?ps) + sint ?ps"
      unfolding sum by simp
    show "sint ((N - 1) * ?ps) + sint ?ps < 2 ^ 63"
      unfolding sum using assms(3) by simp
    show "length (cs_IDs sr) < 2 ^ 63" using assms(4) .
  qed
  then show "sint (page_endOffset sr N)
           = spec_page_end (sint N) (sint ?ps) (int (length (cs_IDs sr)))"
    unfolding page_endOffset_def page_startOffset_def spec_page_end_def Let_def sum .
qed

lemma next_offsets_exact:
  assumes "0 \<le> sint (PageSize result)" "0 \<le> sint (CurrentPageNumber result)"
    and "(sint (CurrentPageNumber result) + 1) * sint (PageSize result) < 2 ^ 63"
    and "length (TotalIDs result) < 2 ^ 63"
  shows "sint (next_startOffset result)
           = spec_page_start (sint (CurrentPageNumber result) + 1) (sint (PageSize result))"
    and "sint (next_endOffset result)
           = spec_page_end (sint (CurrentPageNumber result) + 1) (sint (PageSize result))
               (int (length (TotalIDs result)))"
proof -
  let ?ps = "PageSize result" and ?k = "CurrentPageNumber result"
  have le: "sint ?k * sint ?ps \<le> (sint ?k + 1) * sint ?ps"
    using assms(1) by (simp add: algebra_simps)
  have ge: "0 \<le> sint ?k * sint ?ps"
    using assms(1,2) by simp
  have s: "sint (?k * ?ps) = sint ?k * sint ?ps"
    using le ge assms(3) by (simp add: sint_mult_exact)
  show "sint (next_startOffset result) = spec_page_start (sint ?k + 1) (sint ?ps)"
    by (simp add: next_startOffset_def spec_page_start_def s)
  have sum: "sint (?k * ?ps) + sint ?ps = (sint ?k + 1) * sint ?ps"
    unfolding s by (simp add: algebra_simps)
  have "sint (if len (TotalIDs result) <s ?k * ?ps + ?ps then len (TotalIDs result)
              else ?k * ?ps + ?ps)
        = min (sint (?k * ?ps) + sint ?ps) (int (length (TotalIDs result)))"
  proof (rule sint_clamped_end)
    show "- (2 ^ 63) \<le> sint (?k * ?ps) + sint ?ps"
      unfolding sum using ge le by simp
    show "sint (?k * ?ps) + sint ?ps < 2 ^ 63"
      unfolding sum using assms(3) by simp
    show "length (TotalIDs result) < 2 ^ 63" using assms(4) .
  qed
  then show "sint (next_endOffset result)
           = spec_page_end (sint ?k + 1) (sint ?ps) (int (length (TotalIDs result)))"
    unfolding next_endOffset_def next_startOffset_def spec_page_end_def Let_def sum .
qed


lemma AddMultiField_Items_empty:
  "AddMultiField_Items \<lparr>Fields = []\<rparr> field items = \<lparr>Fields = [MultiField field items]\<rparr>"
  by (simp add: AddMultiField_Items_def)

lemma AddMultiField_Items_Fields:
  "AddMultiField_Items s field items = \<lparr>Fields = Fields s @ [MultiField field items]\<rparr>"
  by (cases s) (simp add: AddMultiField_Items_def)

lemma spec_page_start_nonneg: "0 \<le> p \<Longrightarrow> 1 \<le> N \<Longrightarrow> 0 \<le> spec_page_start N p"
  by (simp add: spec_page_start_def)

lemma spec_page_end_le: "spec_page_end N p n \<le> n"
  by (simp add: spec_page_end_def)

lemma page_offsets_below_first:
  assumes ps: "0 < sint (cs_PageSize sr)" and pg: "sint page < 1"
    and lo: "- (2 ^ 63) \<le> (sint page - 1) * sint (cs_PageSize sr)"
    and n: "length (cs_IDs sr) < 2 ^ 63"
  shows "sint (page_startOffset sr page) = (sint page - 1) * sint (cs_PageSize sr)"
    and "sint (page_endOffset sr page) = sint page * sint (cs_PageSize sr)"
proof -
  let ?ps = "cs_PageSize sr"
  have x: "(sint page - 1) * sint ?ps \<le> (sint page - 1) * 1"
    using ps pg by (intro mult_left_mono_neg) simp_all
  then have "- (2 ^ 63) < sint page" using lo by simp
  then have p: "sint (page - 1) = sint page - 1" by (simp add: sint_pred_exact)
  have neg: "(sint page - 1) * sint ?ps < 0" using x pg by simp
  have s: "sint ((page - 1) * ?ps) = (sint page - 1) * sint ?ps"
    using lo neg by (simp add: sint_mult_exact p)
  show "sint (page_startOffset sr page) = (sint page - 1) * sint ?ps"
    by (simp add: page_startOffset_def s)
  have sum: "sint ((page - 1) * ?ps) + sint ?ps = sint page * sint ?ps"
    unfolding s by (simp add: algebra_simps)
  have up: "sint page * sint ?ps \<le> 0"
    using ps pg by (simp add: mult_le_0_iff)
  have low: "(sint page - 1) * sint ?ps \<le> sint page * sint ?ps"
    using ps by (simp add: algebra_simps)
  have "sint (if len (cs_IDs sr) <s (page - 1) * ?ps + ?ps then len (cs_IDs sr)
              else (page - 1) * ?ps + ?ps)
        = min (sint ((page - 1) * ?ps) + sint ?ps) (int (length (cs_IDs sr)))"
  proof (rule sint_clamped_end)
    show "- (2 ^ 63) \<le> sint ((page - 1) * ?ps) + sint ?ps"
      unfolding sum using lo low by simp
    show "sint ((page - 1) * ?ps) + sint ?ps < 2 ^ 63"
      unfolding sum using up by simp
    show "length (cs_IDs sr) < 2 ^ 63" using n .
  qed
  then have "sint (page_endOffset sr page)
           = min (sint page * sint ?ps) (int (length (cs_IDs sr)))"
    unfolding page_endOffset_def page_startOffset_def Let_def sum .
  with up show "sint (page_endOffset sr page) = sint page * sint ?ps"
    by simp
qed

lemma fetchTransactionIDs_eq:
  "fetchTransactionIDs g q cs =
     ((case execute g cs \<lparr>Method = ''POST'', Path = ''transactions/advanced_search_ids'',
                          Payload = QueryPayload q\<rparr> of
         Inl e \<Rightarrow> Inl e
       | Inr resp \<Rightarrow> unmarshal_searchResults g (Body resp)),
      cs @ [\<lparr>Method = ''POST'', Path = ''transactions/advanced_search_ids'',
             Payload = QueryPayload q\<rparr>])"
  by (simp add: fetchTransactionIDs_def do_execute_def Let_def split: sum.splits)

lemma Search_first_slice:
  assumes "0 \<le> sint ps" "length ids < 2 ^ 63"
  shows "go_slice ids 0 (if len ids <s ps then len ids else ps)
         = Inr (take (min (nat (sint ps)) (length ids)) ids)"
proof (cases "int (length ids) < sint ps")
  case True
  then have "min (nat (sint ps)) (length ids) = length ids" by linarith
  with True assms show ?thesis
    by (simp add: go_slice_def word_sless_alt sint_len)
next
  case False
  then have "min (nat (sint ps)) (length ids) = nat (sint ps)" by linarith
  with False assms show ?thesis
    by (simp add: go_slice_def word_sless_alt sint_len)
qed

subsection \<open>Each operation as one equation\<close>

lemma Create_eq:
  "Create g tx cs =
     ((case execute g cs \<lparr>Method = ''POST'', Path = ''transactions'',
                          Payload = TransactionPayload tx\<rparr> of
         Inl err \<Rightarrow> (None, Some err)
       | Inr resp \<Rightarrow> (if StatusCode resp = 201 then transaction g resp else (None, Some (InvalidResponseError resp)))),
      cs @ [\<lparr>Method = ''POST'', Path = ''transactions'',
             Payload = TransactionPayload tx\<rparr>])"
  by (simp add: Create_def do_execute_def Let_def split: sum.splits)

lemma Clone_eq:
  "Clone g tid ctx cs =
     ((case execute g cs \<lparr>Method = ''POST'', Path = ''transactions/'' @ tid @ ''/clone'',
                          Payload = ClonePayload ctx\<rparr> of
         Inl err \<Rightarrow> (None, Some err)
       | Inr resp \<Rightarrow> (if StatusCode resp = 201 then transaction g resp else (None, Some (InvalidResponseError resp)))),
      cs @ [\<lparr>Method = ''POST'', Path = ''transactions/'' @ tid @ ''/clone'',
             Payload = ClonePayload ctx\<rparr>])"
  by (simp add: Clone_def do_execute_def Let_def split: sum.splits)

lemma SubmitForSettlement_eq:
  "SubmitForSettlement g tid amount cs =
     ((case execute g cs \<lparr>Method = ''PUT'', Path = ''transactions/'' @ tid @ ''/submit_for_settlement'',
                          Payload = amount_request amount\<rparr> of
         Inl err \<Rightarrow> (None, Some err)
       | Inr resp \<Rightarrow> (if StatusCode resp = 200 then transaction g resp else (None, Some (InvalidResponseError resp)))),
      cs @ [\<lparr>Method = ''PUT'', Path = ''transactions/'' @ tid @ ''/submit_for_settlement'',
             Payload = amount_request amount\<rparr>])"
  by (simp add: SubmitForSettlement_def do_execute_def Let_def split: sum.splits)

lemma Void_eq:
  "Void g tid cs =
     ((case execute g cs \<lparr>Method = ''PUT'', Path = ''transactions/'' @ tid @ ''/void'',
                          Payload = NoPayload\<rparr> of
         Inl err \<Rightarrow> (None, Some err)
       | Inr resp \<Rightarrow> (if StatusCode resp = 200 then transaction g resp else (None, Some (InvalidResponseError resp)))),
      cs @ [\<lparr>Method = ''PUT'', Path = ''transactions/'' @ tid @ ''/void'',
             Payload = NoPayload\<rparr>])"
  by (simp add: Void_def do_execute_def Let_def split: sum.splits)

lemma CancelRelease_eq:
  "CancelRelease g tid cs =
     ((case execute g cs \<lparr>Method = ''PUT'', Path = ''transactions/'' @ tid @ ''/cancel_release'',
                          Payload = NoPayload\<rparr> of
         Inl err \<Rightarrow> (None, Some err)
       | Inr resp \<Rightarrow> (if StatusCode resp = 200 then transaction g resp else (None, Some (InvalidResponseError resp)))),
      cs @ [\<lparr>Method = ''PUT'', Path = ''transactions/'' @ tid @ ''/cancel_release'',
             Payload = NoPayload\<rparr>])"
  by (simp add: CancelRelease_def do_execute_def Let_def split: sum.splits)

lemma ReleaseFromEscrow_eq:
  "ReleaseFromEscrow g tid cs =
     ((case execute g cs \<lparr>Method = ''PUT'', Path = ''transactions/'' @ tid @ ''/release_from_escrow'',
                          Payload = NoPayload\<rparr> of
         Inl err \<Rightarrow> (None, Some err)
       | Inr resp \<Rightarrow> (if StatusCode resp = 200 then transaction g resp else (None, Some (InvalidResponseError resp)))),
      cs @ [\<lparr>Method = ''PUT'', Path = ''transactions/'' @ tid @ ''/release_from_escrow'',
             Payload = NoPayload\<rparr>])"
  by (simp add: ReleaseFromEscrow_def do_execute_def Let_def split: sum.splits)

lemma HoldInEscrow_eq:
  "HoldInEscrow g tid cs =
     ((case execute g cs \<lparr>Method = ''PUT'', Path = ''transactions/'' @ tid @ ''/hold_in_escrow'',
                          Payload = NoPayload\<rparr> of
         Inl err \<Rightarrow> (None, Some err)
       | Inr resp \<Rightarrow> (if StatusCode resp = 200 then transaction g resp else (None, Some (InvalidResponseError resp)))),
      cs @ [\<lparr>Method = ''PUT'', Path = ''transactions/'' @ tid @ ''/hold_in_escrow'',
             Payload = NoPayload\<rparr>])"
  by (simp add: HoldInEscrow_def do_execute_def Let_def split: sum.splits)

lemma Refund_eq:
  "Refund g tid amount cs =
     ((case execute g cs \<lparr>Method = ''POST'', Path = ''transactions/'' @ tid @ ''/refund'',
                          Payload = amount_request amount\<rparr> of
         Inl err \<Rightarrow> (None, Some err)
       | Inr resp \<Rightarrow> (if StatusCode resp = 200 \<or> StatusCode resp = 201 then transaction g resp else (None, Some (InvalidResponseError resp)))),
      cs @ [\<lparr>Method = ''POST'', Path = ''transactions/'' @ tid @ ''/refund'',
             Payload = amount_request amount\<rparr>])"
  by (simp add: Refund_def do_execute_def Let_def split: sum.splits)

lemma Find_eq:
  "Find g tid cs =
     ((case execute g cs \<lparr>Method = ''GET'', Path = ''transactions/'' @ tid,
                          Payload = NoPayload\<rparr> of
         Inl err \<Rightarrow> (None, Some err)
       | Inr resp \<Rightarrow> (if StatusCode resp = 200 then transaction g resp else (None, Some (InvalidResponseError resp)))),
      cs @ [\<lparr>Method = ''GET'', Path = ''transactions/'' @ tid,
             Payload = NoPayload\<rparr>])"
  by (simp add: Find_def do_execute_def Let_def split: sum.splits)

lemma CreditCard_Create_eq:
  "CreditCard_Create g cc cs =
     ((case execute g cs \<lparr>Method = ''POST'', Path = ''payment_methods'',
                          Payload = CardPayload cc\<rparr> of
         Inl err \<Rightarrow> (None, Some err)
       | Inr resp \<Rightarrow> (if StatusCode resp = 201 then creditCard g resp else (None, Some (InvalidResponseError resp)))),
      cs @ [\<lparr>Method = ''POST'', Path = ''payment_methods'',
             Payload = CardPayload cc\<rparr>])"
  by (simp add: CreditCard_Create_def do_execute_def Let_def split: sum.splits)

lemma CreditCard_Update_eq:
  "CreditCard_Update g cc cs =
     ((case execute g cs \<lparr>Method = ''PUT'', Path = ''payment_methods/'' @ Token cc,
                          Payload = CardPayload cc\<rparr> of
         Inl err \<Rightarrow> (None, Some err)
       | Inr resp \<Rightarrow> (if StatusCode resp = 200 then creditCard g resp else (None, Some (InvalidResponseError resp)))),
      cs @ [\<lparr>Method = ''PUT'', Path = ''payment_methods/'' @ Token cc,
             Payload = CardPayload cc\<rparr>])"
  by (simp add: CreditCard_Update_def do_execute_def Let_def split: sum.splits)

lemma CreditCard_Find_eq:
  "CreditCard_Find g token cs =
     ((case execute g cs \<lparr>Method = ''GET'', Path = ''payment_methods/'' @ token,
                          Payload = NoPayload\<rparr> of
         Inl err \<Rightarrow> (None, Some err)
       | Inr resp \<Rightarrow> (if StatusCode resp = 200 then creditCard g resp else (None, Some (InvalidResponseError resp)))),
      cs @ [\<lparr>Method = ''GET'', Path = ''payment_methods/'' @ token,
             Payload = NoPayload\<rparr>])"
  by (simp add: CreditCard_Find_def do_execute_def Let_def split: sum.splits)

lemma CreditCard_Delete_eq:
  "CreditCard_Delete g cc cs =
     ((case execute g cs \<lparr>Method = ''DELETE'', Path = ''payment_methods/'' @ Token cc,
                          Payload = NoPayload\<rparr> of
         Inl err \<Rightarrow> Some err
       | Inr resp \<Rightarrow> (if StatusCode resp = 200 then None else Some (InvalidResponseError resp))),
      cs @ [\<lparr>Method = ''DELETE'', Path = ''payment_methods/'' @ Token cc,
             Payload = NoPayload\<rparr>])"
  by (simp add: CreditCard_Delete_def do_execute_def Let_def split: sum.splits)

lemma ExpiringBetweenIDs_eq:
  "ExpiringBetweenIDs g fromDate toDate cs =
     ((case execute g cs \<lparr>Method = ''POST'',
                          Path = ''/payment_methods/all/expiring_ids?''
                                   @ expiring_qs g fromDate toDate,
                          Payload = NoPayload\<rparr> of
         Inl err \<Rightarrow> (None, Some err)
       | Inr resp \<Rightarrow>
           (case unmarshal_searchResults g (Body resp) of
              Inl err \<Rightarrow> (None, Some err)
            | Inr v \<Rightarrow> (Some \<lparr>cs_PageSize = sr_PageSize v, cs_IDs = sr_IDs_Item v\<rparr>, None))),
      cs @ [\<lparr>Method = ''POST'',
             Path = ''/payment_methods/all/expiring_ids?'' @ expiring_qs g fromDate toDate,
             Payload = NoPayload\<rparr>])"
  by (simp add: ExpiringBetweenIDs_def do_execute_def Let_def split: sum.splits)

lemma Search_fetch_eq:
  assumes "execute g cs \<lparr>Method = ''POST'', Path = ''transactions/advanced_search_ids'',
                         Payload = QueryPayload query\<rparr> = Inr resp"
    and "unmarshal_searchResults g (Body resp) = Inr v"
    and "0 \<le> sint (sr_PageSize v)" "length (sr_IDs_Item v) < 2 ^ 63"
  shows "Search g query cs =
        (case fetchTransactions g
                \<lparr>Fields = Fields query @ [MultiField ''ids''
                   (take (min (nat (sint (sr_PageSize v))) (length (sr_IDs_Item v)))
                      (sr_IDs_Item v))]\<rparr>
                (cs @ [\<lparr>Method = ''POST'', Path = ''transactions/advanced_search_ids'',
                        Payload = QueryPayload query\<rparr>]) of
           ((firstPageTransactions, err), cs') \<Rightarrow>
             (Inr (Some \<lparr>TotalItems = len (sr_IDs_Item v),
                         TotalIDs = sr_IDs_Item v,
                         CurrentPageNumber = 1,
                         PageSize = sr_PageSize v,
                         Transactions = firstPageTransactions,
                         searchQuery = query\<rparr>, err), cs'))"
proof -
  have sl: "go_slice (sr_IDs_Item v) 0
       (if len (sr_IDs_Item v) <s sr_PageSize v then len (sr_IDs_Item v) else sr_PageSize v)
     = Inr (take (min (nat (sint (sr_PageSize v))) (length (sr_IDs_Item v))) (sr_IDs_Item v))"
    using assms(3,4) by (simp add: Search_first_slice)
  from assms(1,2) show ?thesis
    by (simp add: Search_def fetchTransactionIDs_eq Let_def sl shallowCopy_eq
        AddMultiField_Items_Fields)
qed

lemma SearchNext_fetch_eq:
  assumes "0 \<le> sint (next_startOffset result)"
    and "\<not> next_endOffset result \<le>s next_startOffset result"
    and "length (TotalIDs result) < 2 ^ 63"
  shows "SearchNext g result cs =
        (case fetchTransactions g
                \<lparr>Fields = Fields (searchQuery result) @ [MultiField ''ids''
                   (take (nat (sint (next_endOffset result) - sint (next_startOffset result)))
                      (drop (nat (sint (next_startOffset result))) (TotalIDs result)))]\<rparr> cs of
           ((ts, err), cs') \<Rightarrow>
             (Inr (Some \<lparr>TotalItems = TotalItems result,
                         TotalIDs = TotalIDs result,
                         CurrentPageNumber = CurrentPageNumber result + 1,
                         PageSize = PageSize result,
                         Transactions = ts,
                         searchQuery = searchQuery result\<rparr>, err), cs'))"
proof -
  from assms(3) next_endOffset_le_len [of result]
  have "sint (next_endOffset result) \<le> int (length (TotalIDs result))"
    by (simp add: word_sle_eq sint_len)
  with assms(1,2)
  have "go_slice (TotalIDs result) (next_startOffset result) (next_endOffset result)
        = Inr (take (nat (sint (next_endOffset result) - sint (next_startOffset result)))
                 (drop (nat (sint (next_startOffset result))) (TotalIDs result)))"
    by (simp add: go_slice_def word_sle_eq)
  with assms(2) show ?thesis
    by (simp add: SearchNext_offsets AddMultiField_Items_Fields)
qed

lemma ExpiringBetweenPage_fetch_eq:
  assumes "0 \<le> sint (page_startOffset sr page)"
    and "\<not> page_endOffset sr page \<le>s page_startOffset sr page"
    and "length (cs_IDs sr) < 2 ^ 63"
  shows "ExpiringBetweenPage g fromDate toDate sr page cs =
        (case fetchExpiringBetween g
                \<lparr>Fields = [MultiField ''ids''
                   (take (nat (sint (page_endOffset sr page) - sint (page_startOffset sr page)))
                      (drop (nat (sint (page_startOffset sr page))) (cs_IDs sr)))]\<rparr>
                fromDate toDate cs of
           ((creditCards, err), cs') \<Rightarrow>
             (Inr (Some \<lparr>cc_TotalItems = len (cs_IDs sr),
                         cc_TotalIDs = cs_IDs sr,
                         cc_CurrentPageNumber = page,
                         cc_PageSize = cs_PageSize sr,
                         cc_CreditCards = creditCards\<rparr>, err), cs'))"
proof -
  from assms(3) page_endOffset_le_len [of sr page]
  have "sint (page_endOffset sr page) \<le> int (length (cs_IDs sr))"
    by (simp add: word_sle_eq sint_len)
  with assms(1,2)
  have "go_slice (cs_IDs sr) (page_startOffset sr page) (page_endOffset sr page)
        = Inr (take (nat (sint (page_endOffset sr page) - sint (page_startOffset sr page)))
                 (drop (nat (sint (page_startOffset sr page))) (cs_IDs sr)))"
    by (simp add: go_slice_def word_sle_eq)
  with assms(2) show ?thesis
    by (simp add: ExpiringBetweenPage_offsets AddMultiField_Items_empty)
qed

subsection \<open>The search operations under another status code\<close>

lemma execute_with_status:
  "execute (with_status f g) cs req =
     (case execute g cs req of Inl err \<Rightarrow> Inl err
      | Inr resp \<Rightarrow> Inr (resp\<lparr>StatusCode := f resp\<rparr>))"
  by (simp add: with_status_def)

lemma with_status_fields:
  "unmarshal_searchResults (with_status f g) = unmarshal_searchResults g"
  "unmarshal_transactions (with_status f g) = unmarshal_transactions g"
  "unmarshal_creditCards (with_status f g) = unmarshal_creditCards g"
  "format_012006 (with_status f g) = format_012006 g"
  by (simp_all add: with_status_def)

lemma fetchTransactionIDs_with_status:
  "fetchTransactionIDs (with_status f g) q cs = fetchTransactionIDs g q cs"
  by (simp add: fetchTransactionIDs_eq execute_with_status with_status_fields split: sum.splits)

lemma fetchTransactions_with_status:
  "fetchTransactions (with_status f g) q cs = fetchTransactions g q cs"
  by (simp add: fetchTransactions_eq execute_with_status with_status_fields split: sum.splits)

lemma expiring_qs_with_status:
  "expiring_qs (with_status f g) fromDate toDate = expiring_qs g fromDate toDate"
  by (simp add: expiring_qs_def with_status_fields)

lemma fetchExpiringBetween_with_status:
  "fetchExpiringBetween (with_status f g) q fromDate toDate cs
     = fetchExpiringBetween g q fromDate toDate cs"
  by (simp add: fetchExpiringBetween_eq execute_with_status with_status_fields
      expiring_qs_with_status split: sum.splits)

lemma Search_with_status: "Search (with_status f g) query cs = Search g query cs"
  by (simp add: Search_def fetchTransactionIDs_with_status fetchTransactions_with_status Let_def
      cong: sum.case_cong prod.case_cong)

lemma SearchNext_with_status: "SearchNext (with_status f g) result cs = SearchNext g result cs"
  by (simp add: SearchNext_def fetchTransactions_with_status Let_def
      cong: sum.case_cong prod.case_cong if_cong)

lemma ExpiringBetweenIDs_with_status:
  "ExpiringBetweenIDs (with_status f g) fromDate toDate cs = ExpiringBetweenIDs g fromDate toDate cs"
  by (simp add: ExpiringBetweenIDs_eq execute_with_status with_status_fields
      expiring_qs_with_status split: sum.splits)

lemma ExpiringBetweenPage_with_status:
  "ExpiringBetweenPage (with_status f g) fromDate toDate sr page cs
     = ExpiringBetweenPage g fromDate toDate sr page cs"
  by (simp add: ExpiringBetweenPage_def fetchExpiringBetween_with_status Let_def
      cong: sum.case_cong prod.case_cong if_cong)

text \<open>The definitions unfolded when an operation is run on a concrete input.\<close>

lemmas run_defs =
  SearchNext_def Search_def ExpiringBetweenPage_def ExpiringBetweenIDs_def
  fetchTransactionIDs_def fetchTransactions_def fetchExpiringBetween_def do_execute_def
  stub_gateway_def always_def AddMultiField_Items_def shallowCopy_def expiring_qs_def
  go_slice_def len_def Let_def word_sle_eq word_sless_alt
  next_startOffset_def next_endOffset_def page_startOffset_def page_endOffset_def

subsection \<open>The terminal page\<close>

text \<open>
  C2: whenever the computed start offset equals or exceeds the computed end offset,
  \<open>SearchNext\<close> and \<open>ExpiringBetweenPage\<close> return a nil result and a nil error and
  issue no request: the list of requests is returned as it was. For \<open>SearchNext\<close> this
  is in particular the case when \<open>CurrentPageNumber * PageSize\<close> has reached
  \<open>len(TotalIDs)\<close>.
\<close>

theorem page_fetch_short_circuits:
  "(next_endOffset result \<le>s next_startOffset result
      \<longrightarrow> SearchNext g result cs = (Inr (None, None), cs)) \<and>
   (len (TotalIDs result) \<le>s CurrentPageNumber result * PageSize result
      \<longrightarrow> SearchNext g result cs = (Inr (None, None), cs)) \<and>
   (page_endOffset sr page \<le>s page_startOffset sr page
      \<longrightarrow> ExpiringBetweenPage g fromDate toDate sr page cs = (Inr (None, None), cs))"
proof (intro conjI impI)
  assume "next_endOffset result \<le>s next_startOffset result"
  then show "SearchNext g result cs = (Inr (None, None), cs)"
    by (simp add: SearchNext_offsets)
next
  assume "len (TotalIDs result) \<le>s CurrentPageNumber result * PageSize result"
  with next_endOffset_le_len [of result]
  have "next_endOffset result \<le>s next_startOffset result"
    by (simp add: next_startOffset_def word_sle_eq)
  then show "SearchNext g result cs = (Inr (None, None), cs)"
    by (simp add: SearchNext_offsets)
next
  assume "page_endOffset sr page \<le>s page_startOffset sr page"
  then show "ExpiringBetweenPage g fromDate toDate sr page cs = (Inr (None, None), cs)"
    by (simp add: ExpiringBetweenPage_offsets)
qed

text \<open>
  The third page of three IDs in pages of two is terminal, for both operations, with
  the one earlier request left as the only request.
\<close>

theorem page_fetch_short_circuits_witness:
  "next_endOffset \<lparr>TotalItems = 3, TotalIDs = [''a'', ''b'', ''c''], CurrentPageNumber = 2,
       PageSize = 2, Transactions = [], searchQuery = \<lparr>Fields = []\<rparr>\<rparr>
     \<le>s next_startOffset \<lparr>TotalItems = 3, TotalIDs = [''a'', ''b'', ''c''], CurrentPageNumber = 2,
       PageSize = 2, Transactions = [], searchQuery = \<lparr>Fields = []\<rparr>\<rparr> \<and>
   len [''a'', ''b'', ''c''] \<le>s (2 :: go_int) * 2 \<and>
   page_endOffset \<lparr>cs_PageSize = 2, cs_IDs = [''a'', ''b'', ''c'']\<rparr> 3
     \<le>s page_startOffset \<lparr>cs_PageSize = 2, cs_IDs = [''a'', ''b'', ''c'']\<rparr> 3 \<and>
   SearchNext (stub_gateway (always 200 ''x'') \<lparr>sr_PageSize = 2, sr_IDs_Item = []\<rparr>)
       \<lparr>TotalItems = 3, TotalIDs = [''a'', ''b'', ''c''], CurrentPageNumber = 2,
        PageSize = 2, Transactions = [], searchQuery = \<lparr>Fields = []\<rparr>\<rparr>
       [\<lparr>Method = ''GET'', Path = ''transactions/t1'', Payload = NoPayload\<rparr>]
     = (Inr (None, None), [\<lparr>Method = ''GET'', Path = ''transactions/t1'', Payload = NoPayload\<rparr>]) \<and>
   ExpiringBetweenPage (stub_gateway (always 200 ''x'') \<lparr>sr_PageSize = 2, sr_IDs_Item = []\<rparr>)
       0 0 \<lparr>cs_PageSize = 2, cs_IDs = [''a'', ''b'', ''c'']\<rparr> 3
       [\<lparr>Method = ''GET'', Path = ''transactions/t1'', Payload = NoPayload\<rparr>]
     = (Inr (None, None), [\<lparr>Method = ''GET'', Path = ''transactions/t1'', Payload = NoPayload\<rparr>])"
  using page_fetch_short_circuits
    [of "\<lparr>TotalItems = 3, TotalIDs = [''a'', ''b'', ''c''], CurrentPageNumber = 2,
          PageSize = 2, Transactions = [], searchQuery = \<lparr>Fields = []\<rparr>\<rparr>"
        "stub_gateway (always 200 ''x'') \<lparr>sr_PageSize = 2, sr_IDs_Item = []\<rparr>"
        "[\<lparr>Method = ''GET'', Path = ''transactions/t1'', Payload = NoPayload\<rparr>]"
        "\<lparr>cs_PageSize = 2, cs_IDs = [''a'', ''b'', ''c'']\<rparr>" 3 0 0]
  by (simp add: next_endOffset_def next_startOffset_def page_endOffset_def page_startOffset_def
      len_def word_sle_eq word_sless_alt)

subsection \<open>The slice of page \<open>N\<close>\<close>

text \<open>
  C1, as amended: for every page size above 0, every ID list and every page number
  \<open>N\<close> of at least 1 such that \<open>N * pageSize\<close> does not exceed the largest \<open>int\<close>, the
  page-\<open>N\<close> fetch (\<open>ExpiringBetweenPage\<close> for \<open>page = N\<close>, \<open>SearchNext\<close> for
  \<open>N = CurrentPageNumber + 1\<close>) is terminal when the interval from \<open>(N - 1) * pageSize\<close>
  to \<open>min (N * pageSize) totalCount\<close> is empty, and otherwise requests exactly the IDs
  of that interval.
\<close>

theorem page_fetch_slices_interval:
  "(0 < sint (cs_PageSize sr) \<and> 1 \<le> sint N \<and> sint N * sint (cs_PageSize sr) < 2 ^ 63 \<and>
    length (cs_IDs sr) < 2 ^ 63 \<longrightarrow>
      ExpiringBetweenPage g fromDate toDate sr N cs =
        (if spec_page_end (sint N) (sint (cs_PageSize sr)) (int (length (cs_IDs sr)))
              \<le> spec_page_start (sint N) (sint (cs_PageSize sr))
         then (Inr (None, None), cs)
         else case fetchExpiringBetween g
                     \<lparr>Fields = [MultiField ''ids''
                        (spec_page_ids (sint N) (sint (cs_PageSize sr)) (cs_IDs sr))]\<rparr>
                     fromDate toDate cs of
                ((creditCards, err), cs') \<Rightarrow>
                  (Inr (Some \<lparr>cc_TotalItems = len (cs_IDs sr),
                              cc_TotalIDs = cs_IDs sr,
                              cc_CurrentPageNumber = N,
                              cc_PageSize = cs_PageSize sr,
                              cc_CreditCards = creditCards\<rparr>, err), cs'))) \<and>
   (0 < sint (PageSize result) \<and> 0 \<le> sint (CurrentPageNumber result) \<and>
    (sint (CurrentPageNumber result) + 1) * sint (PageSize result) < 2 ^ 63 \<and>
    length (TotalIDs result) < 2 ^ 63 \<longrightarrow>
      SearchNext g result cs =
        (if spec_page_end (sint (CurrentPageNumber result) + 1) (sint (PageSize result))
                (int (length (TotalIDs result)))
              \<le> spec_page_start (sint (CurrentPageNumber result) + 1) (sint (PageSize result))
         then (Inr (None, None), cs)
         else case fetchTransactions g
                     \<lparr>Fields = Fields (searchQuery result) @ [MultiField ''ids''
                        (spec_page_ids (sint (CurrentPageNumber result) + 1)
                           (sint (PageSize result)) (TotalIDs result))]\<rparr> cs of
                ((ts, err), cs') \<Rightarrow>
                  (Inr (Some \<lparr>TotalItems = TotalItems result,
                              TotalIDs = TotalIDs result,
                              CurrentPageNumber = CurrentPageNumber result + 1,
                              PageSize = PageSize result,
                              Transactions = ts,
                              searchQuery = searchQuery result\<rparr>, err), cs')))"
proof (intro conjI impI)
  let ?s = "spec_page_start (sint N) (sint (cs_PageSize sr))"
  let ?e = "spec_page_end (sint N) (sint (cs_PageSize sr)) (int (length (cs_IDs sr)))"
  assume a: "0 < sint (cs_PageSize sr) \<and> 1 \<le> sint N \<and>
    sint N * sint (cs_PageSize sr) < 2 ^ 63 \<and> length (cs_IDs sr) < 2 ^ 63"
  then have s: "sint (page_startOffset sr N) = ?s" and e: "sint (page_endOffset sr N) = ?e"
    by (simp_all add: page_offsets_exact)
  have s0: "0 \<le> ?s" using a by (simp add: spec_page_start_nonneg)
  have en: "?e \<le> int (length (cs_IDs sr))" by (rule spec_page_end_le)
  have sl: "\<not> ?e \<le> ?s \<Longrightarrow>
    go_slice (cs_IDs sr) (page_startOffset sr N) (page_endOffset sr N)
      = Inr (spec_page_ids (sint N) (sint (cs_PageSize sr)) (cs_IDs sr))"
    using s0 en by (simp add: go_slice_def s e spec_page_ids_def)
  show "ExpiringBetweenPage g fromDate toDate sr N cs =
        (if ?e \<le> ?s then (Inr (None, None), cs)
         else case fetchExpiringBetween g
                     \<lparr>Fields = [MultiField ''ids''
                        (spec_page_ids (sint N) (sint (cs_PageSize sr)) (cs_IDs sr))]\<rparr>
                     fromDate toDate cs of
                ((creditCards, err), cs') \<Rightarrow>
                  (Inr (Some \<lparr>cc_TotalItems = len (cs_IDs sr),
                              cc_TotalIDs = cs_IDs sr,
                              cc_CurrentPageNumber = N,
                              cc_PageSize = cs_PageSize sr,
                              cc_CreditCards = creditCards\<rparr>, err), cs'))"
    by (simp add: ExpiringBetweenPage_offsets word_sle_eq s e sl AddMultiField_Items_empty)
next
  let ?N = "sint (CurrentPageNumber result) + 1"
  let ?s = "spec_page_start ?N (sint (PageSize result))"
  let ?e = "spec_page_end ?N (sint (PageSize result)) (int (length (TotalIDs result)))"
  assume a: "0 < sint (PageSize result) \<and> 0 \<le> sint (CurrentPageNumber result) \<and>
    (sint (CurrentPageNumber result) + 1) * sint (PageSize result) < 2 ^ 63 \<and>
    length (TotalIDs result) < 2 ^ 63"
  then have s: "sint (next_startOffset result) = ?s" and e: "sint (next_endOffset result) = ?e"
    by (simp_all add: next_offsets_exact)
  have s0: "0 \<le> ?s" using a by (simp add: spec_page_start_nonneg)
  have en: "?e \<le> int (length (TotalIDs result))" by (rule spec_page_end_le)
  have sl: "\<not> ?e \<le> ?s \<Longrightarrow>
    go_slice (TotalIDs result) (next_startOffset result) (next_endOffset result)
      = Inr (spec_page_ids ?N (sint (PageSize result)) (TotalIDs result))"
    using s0 en by (simp add: go_slice_def s e spec_page_ids_def)
  show "SearchNext g result cs =
        (if ?e \<le> ?s then (Inr (None, None), cs)
         else case fetchTransactions g
                     \<lparr>Fields = Fields (searchQuery result) @ [MultiField ''ids''
                        (spec_page_ids ?N (sint (PageSize result)) (TotalIDs result))]\<rparr> cs of
                ((ts, err), cs') \<Rightarrow>
                  (Inr (Some \<lparr>TotalItems = TotalItems result,
                              TotalIDs = TotalIDs result,
                              CurrentPageNumber = CurrentPageNumber result + 1,
                              PageSize = PageSize result,
                              Transactions = ts,
                              searchQuery = searchQuery result\<rparr>, err), cs'))"
    by (simp add: SearchNext_offsets word_sle_eq s e sl AddMultiField_Items_Fields)
qed

theorem page_fetch_slices_interval_witness:
  "0 < sint (2 :: go_int) \<and> 1 \<le> sint (2 :: go_int) \<and> sint (2 :: go_int) * sint (2 :: go_int) < 2 ^ 63 \<and>
   0 \<le> sint (1 :: go_int) \<and> (sint (1 :: go_int) + 1) * sint (2 :: go_int) < 2 ^ 63 \<and>
   length [''a'', ''b'', ''c''] < (2 :: nat) ^ 63 \<and>
   spec_page_start 2 2 = 2 \<and> spec_page_end 2 2 3 = 3 \<and>
   spec_page_ids 2 2 [''a'', ''b'', ''c''] = [''c''] \<and>
   ExpiringBetweenPage (stub_gateway (always 200 ''t3'') \<lparr>sr_PageSize = 2, sr_IDs_Item = []\<rparr>)
       7 9 \<lparr>cs_PageSize = 2, cs_IDs = [''a'', ''b'', ''c'']\<rparr> 2 []
     = (Inr (Some \<lparr>cc_TotalItems = 3, cc_TotalIDs = [''a'', ''b'', ''c''],
                   cc_CurrentPageNumber = 2, cc_PageSize = 2,
                   cc_CreditCards = [\<lparr>Token = ''t3''\<rparr>]\<rparr>, None),
        [\<lparr>Method = ''POST'',
          Path = ''/payment_methods/all/expiring?end=012030&start=012030'',
          Payload = QueryPayload \<lparr>Fields = [MultiField ''ids'' [''c'']]\<rparr>\<rparr>]) \<and>
   SearchNext (stub_gateway (always 200 ''t3'') \<lparr>sr_PageSize = 2, sr_IDs_Item = []\<rparr>)
       \<lparr>TotalItems = 3, TotalIDs = [''a'', ''b'', ''c''], CurrentPageNumber = 1,
        PageSize = 2, Transactions = [], searchQuery = \<lparr>Fields = []\<rparr>\<rparr> []
     = (Inr (Some \<lparr>TotalItems = 3, TotalIDs = [''a'', ''b'', ''c''], CurrentPageNumber = 2,
                   PageSize = 2, Transactions = [Transaction ''t3''],
                   searchQuery = \<lparr>Fields = []\<rparr>\<rparr>, None),
        [\<lparr>Method = ''POST'', Path = ''transactions/advanced_search'',
          Payload = QueryPayload \<lparr>Fields = [MultiField ''ids'' [''c'']]\<rparr>\<rparr>])"
  using page_fetch_slices_interval
    [where g = "stub_gateway (always 200 ''t3'') \<lparr>sr_PageSize = 2, sr_IDs_Item = []\<rparr>"
       and sr = "\<lparr>cs_PageSize = 2, cs_IDs = [''a'', ''b'', ''c'']\<rparr>" and N = 2
       and fromDate = 7 and toDate = 9 and cs = "[]"
       and result = "\<lparr>TotalItems = 3, TotalIDs = [''a'', ''b'', ''c''], CurrentPageNumber = 1,
          PageSize = 2, Transactions = [], searchQuery = \<lparr>Fields = []\<rparr>\<rparr>"]
  by (simp add: spec_page_start_def spec_page_end_def spec_page_ids_def
      fetchExpiringBetween_def fetchTransactions_def do_execute_def stub_gateway_def always_def
      expiring_qs_def len_def)

text \<open>
  C1 as stated fails where the product overflows: for pages of 4 and page number
  \<open>2 ^ 62 + 1\<close> the start offset \<open>2 ^ 64\<close> wraps around to 0, so that the code requests
  the ID at index 0, whereas the interval from \<open>2 ^ 64\<close> to \<open>min (2 ^ 64 + 4) 1\<close> is empty.
\<close>

theorem page_fetch_overflow_counterexample:
  "0 < sint (4 :: go_int) \<and> 1 \<le> sint (4611686018427387905 :: go_int) \<and>
   spec_page_start 4611686018427387905 4 = 18446744073709551616 \<and>
   spec_page_end 4611686018427387905 4 (int (length [''a''])) = 1 \<and>
   spec_page_ids 4611686018427387905 4 [''a''] = [] \<and>
   ExpiringBetweenPage (stub_gateway (always 200 ''t1'') \<lparr>sr_PageSize = 4, sr_IDs_Item = [''a'']\<rparr>)
       7 9 \<lparr>cs_PageSize = 4, cs_IDs = [''a'']\<rparr> 4611686018427387905 []
     = (Inr (Some \<lparr>cc_TotalItems = 1, cc_TotalIDs = [''a''],
                   cc_CurrentPageNumber = 4611686018427387905, cc_PageSize = 4,
                   cc_CreditCards = [\<lparr>Token = ''t1''\<rparr>]\<rparr>, None),
        [\<lparr>Method = ''POST'',
          Path = ''/payment_methods/all/expiring?end=012030&start=012030'',
          Payload = QueryPayload \<lparr>Fields = [MultiField ''ids'' [''a'']]\<rparr>\<rparr>])"
  by (simp add: run_defs spec_page_start_def spec_page_end_def spec_page_ids_def)

subsection \<open>Slice bounds\<close>

text \<open>
  C9, as amended: under the preconditions \<open>page \<ge> 1\<close>, \<open>PageSize \<ge> 0\<close> and
  \<open>page * PageSize\<close> at most the largest \<open>int\<close> (for \<open>SearchNext\<close>:
  \<open>CurrentPageNumber \<ge> 1\<close>, \<open>PageSize \<ge> 0\<close> and \<open>(CurrentPageNumber + 1) * PageSize\<close> at
  most the largest \<open>int\<close>), whenever the operation does not short-circuit to the
  terminal result the computed indices satisfy \<open>0 \<le> start < end \<le> len(IDs)\<close> and the
  slice expression does not panic. For \<open>page < 1\<close> with \<open>PageSize > 0\<close> and
  \<open>(page - 1) * PageSize\<close> at least the smallest \<open>int\<close>, the start offset is negative
  and the slice expression is out of bounds.
\<close>

theorem slice_indices_in_bounds:
  "(1 \<le> sint page \<and> 0 \<le> sint (cs_PageSize sr) \<and> sint page * sint (cs_PageSize sr) < 2 ^ 63 \<and>
    length (cs_IDs sr) < 2 ^ 63 \<and> \<not> page_endOffset sr page \<le>s page_startOffset sr page \<longrightarrow>
      0 \<le> sint (page_startOffset sr page) \<and>
      sint (page_startOffset sr page) < sint (page_endOffset sr page) \<and>
      sint (page_endOffset sr page) \<le> int (length (cs_IDs sr)) \<and>
      fst (ExpiringBetweenPage g fromDate toDate sr page cs) \<noteq> Inl SliceBoundsOutOfRange) \<and>
   (1 \<le> sint (CurrentPageNumber result) \<and> 0 \<le> sint (PageSize result) \<and>
    (sint (CurrentPageNumber result) + 1) * sint (PageSize result) < 2 ^ 63 \<and>
    length (TotalIDs result) < 2 ^ 63 \<and> \<not> next_endOffset result \<le>s next_startOffset result \<longrightarrow>
      0 \<le> sint (next_startOffset result) \<and>
      sint (next_startOffset result) < sint (next_endOffset result) \<and>
      sint (next_endOffset result) \<le> int (length (TotalIDs result)) \<and>
      fst (SearchNext g result cs) \<noteq> Inl SliceBoundsOutOfRange) \<and>
   (sint page < 1 \<and> 0 < sint (cs_PageSize sr) \<and>
    - (2 ^ 63) \<le> (sint page - 1) * sint (cs_PageSize sr) \<and> length (cs_IDs sr) < 2 ^ 63 \<longrightarrow>
      sint (page_startOffset sr page) < 0 \<and>
      ExpiringBetweenPage g fromDate toDate sr page cs = (Inl SliceBoundsOutOfRange, cs))"
proof (intro conjI impI)
  assume a: "1 \<le> sint page \<and> 0 \<le> sint (cs_PageSize sr) \<and>
    sint page * sint (cs_PageSize sr) < 2 ^ 63 \<and>
    length (cs_IDs sr) < 2 ^ 63 \<and> \<not> page_endOffset sr page \<le>s page_startOffset sr page"
  then have s: "sint (page_startOffset sr page) = spec_page_start (sint page) (sint (cs_PageSize sr))"
    by (simp add: page_offsets_exact)
  from a show s0: "0 \<le> sint (page_startOffset sr page)"
    unfolding s by (simp add: spec_page_start_nonneg)
  from a show lt: "sint (page_startOffset sr page) < sint (page_endOffset sr page)"
    by (simp add: word_sle_eq)
  from a page_endOffset_le_len [of sr page]
  show en: "sint (page_endOffset sr page) \<le> int (length (cs_IDs sr))"
    by (simp add: word_sle_eq sint_len)
  from s0 lt en show "fst (ExpiringBetweenPage g fromDate toDate sr page cs) \<noteq> Inl SliceBoundsOutOfRange"
    by (simp add: ExpiringBetweenPage_offsets go_slice_def split: prod.splits)
next
  assume a: "1 \<le> sint (CurrentPageNumber result) \<and> 0 \<le> sint (PageSize result) \<and>
    (sint (CurrentPageNumber result) + 1) * sint (PageSize result) < 2 ^ 63 \<and>
    length (TotalIDs result) < 2 ^ 63 \<and> \<not> next_endOffset result \<le>s next_startOffset result"
  then have s: "sint (next_startOffset result)
      = spec_page_start (sint (CurrentPageNumber result) + 1) (sint (PageSize result))"
    by (simp add: next_offsets_exact)
  from a show s0: "0 \<le> sint (next_startOffset result)"
    unfolding s by (simp add: spec_page_start_nonneg)
  from a show lt: "sint (next_startOffset result) < sint (next_endOffset result)"
    by (simp add: word_sle_eq)
  from a next_endOffset_le_len [of result]
  show en: "sint (next_endOffset result) \<le> int (length (TotalIDs result))"
    by (simp add: word_sle_eq sint_len)
  from s0 lt en show "fst (SearchNext g result cs) \<noteq> Inl SliceBoundsOutOfRange"
    by (simp add: SearchNext_offsets go_slice_def split: prod.splits)
next
  assume a: "sint page < 1 \<and> 0 < sint (cs_PageSize sr) \<and>
    - (2 ^ 63) \<le> (sint page - 1) * sint (cs_PageSize sr) \<and> length (cs_IDs sr) < 2 ^ 63"
  then have s: "sint (page_startOffset sr page) = (sint page - 1) * sint (cs_PageSize sr)"
    and e: "sint (page_endOffset sr page) = sint page * sint (cs_PageSize sr)"
    by (simp_all add: page_offsets_below_first)
  from a show neg: "sint (page_startOffset sr page) < 0"
    unfolding s by (simp add: mult_less_0_iff)
  have "sint (page_startOffset sr page) < sint (page_endOffset sr page)"
    unfolding s e using a by (simp add: algebra_simps)
  with neg show "ExpiringBetweenPage g fromDate toDate sr page cs = (Inl SliceBoundsOutOfRange, cs)"
    by (simp add: ExpiringBetweenPage_offsets go_slice_def word_sle_eq)
qed

theorem slice_indices_in_bounds_witness:
  "1 \<le> sint (2 :: go_int) \<and> 0 \<le> sint (2 :: go_int) \<and> sint (2 :: go_int) * sint (2 :: go_int) < 2 ^ 63 \<and>
   1 \<le> sint (1 :: go_int) \<and> (sint (1 :: go_int) + 1) * sint (2 :: go_int) < 2 ^ 63 \<and>
   length [''a'', ''b'', ''c''] < (2 :: nat) ^ 63 \<and>
   sint (0 :: go_int) < 1 \<and> 0 < sint (2 :: go_int) \<and>
   - (2 ^ 63) \<le> (sint (0 :: go_int) - 1) * sint (2 :: go_int) \<and>
   page_startOffset \<lparr>cs_PageSize = 2, cs_IDs = [''a'', ''b'', ''c'']\<rparr> 2 = 2 \<and>
   page_endOffset \<lparr>cs_PageSize = 2, cs_IDs = [''a'', ''b'', ''c'']\<rparr> 2 = 3 \<and>
   next_startOffset \<lparr>TotalItems = 3, TotalIDs = [''a'', ''b'', ''c''], CurrentPageNumber = 1,
        PageSize = 2, Transactions = [], searchQuery = \<lparr>Fields = []\<rparr>\<rparr> = 2 \<and>
   next_endOffset \<lparr>TotalItems = 3, TotalIDs = [''a'', ''b'', ''c''], CurrentPageNumber = 1,
        PageSize = 2, Transactions = [], searchQuery = \<lparr>Fields = []\<rparr>\<rparr> = 3 \<and>
   page_startOffset \<lparr>cs_PageSize = 2, cs_IDs = [''a'', ''b'', ''c'']\<rparr> 0 = - 2 \<and>
   ExpiringBetweenPage (stub_gateway (always 200 ''t3'') \<lparr>sr_PageSize = 2, sr_IDs_Item = []\<rparr>)
       7 9 \<lparr>cs_PageSize = 2, cs_IDs = [''a'', ''b'', ''c'']\<rparr> 0 []
     = (Inl SliceBoundsOutOfRange, [])"
  using slice_indices_in_bounds
    [where g = "stub_gateway (always 200 ''t3'') \<lparr>sr_PageSize = 2, sr_IDs_Item = []\<rparr>"
       and sr = "\<lparr>cs_PageSize = 2, cs_IDs = [''a'', ''b'', ''c'']\<rparr>" and page = 2
       and fromDate = 7 and toDate = 9 and cs = "[]"
       and result = "\<lparr>TotalItems = 3, TotalIDs = [''a'', ''b'', ''c''], CurrentPageNumber = 1,
          PageSize = 2, Transactions = [], searchQuery = \<lparr>Fields = []\<rparr>\<rparr>"]
    slice_indices_in_bounds
    [where g = "stub_gateway (always 200 ''t3'') \<lparr>sr_PageSize = 2, sr_IDs_Item = []\<rparr>"
       and sr = "\<lparr>cs_PageSize = 2, cs_IDs = [''a'', ''b'', ''c'']\<rparr>" and page = 0
       and fromDate = 7 and toDate = 9 and cs = "[]"
       and result = "\<lparr>TotalItems = 3, TotalIDs = [''a'', ''b'', ''c''], CurrentPageNumber = 1,
          PageSize = 2, Transactions = [], searchQuery = \<lparr>Fields = []\<rparr>\<rparr>"]
  by (simp add: page_startOffset_def page_endOffset_def next_startOffset_def next_endOffset_def
      len_def word_sle_eq word_sless_alt)

text \<open>
  C9 as stated fails in two places. With \<open>page = 3\<close> and \<open>PageSize = 2 ^ 62\<close> the
  preconditions hold, but the start offset \<open>2 ^ 63\<close> wraps around to a negative number,
  the operation does not short-circuit, and the slice expression panics. With
  \<open>page = 0\<close> and \<open>PageSize = 0\<close> the start offset is 0, not negative, and the
  operation returns the terminal result instead of slicing out of bounds.
\<close>

theorem slice_indices_counterexample:
  "1 \<le> sint (3 :: go_int) \<and> 0 \<le> sint (4611686018427387904 :: go_int) \<and>
   \<not> page_endOffset \<lparr>cs_PageSize = 4611686018427387904, cs_IDs = [''a'']\<rparr> 3
       \<le>s page_startOffset \<lparr>cs_PageSize = 4611686018427387904, cs_IDs = [''a'']\<rparr> 3 \<and>
   sint (page_startOffset \<lparr>cs_PageSize = 4611686018427387904, cs_IDs = [''a'']\<rparr> 3) < 0 \<and>
   ExpiringBetweenPage (stub_gateway (always 200 ''t1'') \<lparr>sr_PageSize = 4, sr_IDs_Item = [''a'']\<rparr>)
       7 9 \<lparr>cs_PageSize = 4611686018427387904, cs_IDs = [''a'']\<rparr> 3 []
     = (Inl SliceBoundsOutOfRange, []) \<and>
   sint (0 :: go_int) < 1 \<and> 0 \<le> sint (0 :: go_int) \<and>
   sint (page_startOffset \<lparr>cs_PageSize = 0, cs_IDs = [''a'']\<rparr> 0) = 0 \<and>
   ExpiringBetweenPage (stub_gateway (always 200 ''t1'') \<lparr>sr_PageSize = 4, sr_IDs_Item = [''a'']\<rparr>)
       7 9 \<lparr>cs_PageSize = 0, cs_IDs = [''a'']\<rparr> 0 []
     = (Inr (None, None), [])"
  by (simp add: run_defs)

subsection \<open>The first page\<close>

text \<open>
  C4, as amended: for every query, the first request that \<open>Search\<close> issues is the ID
  search carrying the query; whenever it is answered by an ID list and a page size
  of at least 0, \<open>Search\<close> returns a first-page result with \<open>CurrentPageNumber = 1\<close>,
  \<open>TotalIDs\<close> the fetched list and \<open>TotalItems = len(TotalIDs)\<close>, after a page request
  whose query is the search query extended by the first \<open>min(PageSize, len(TotalIDs))\<close>
  IDs.
\<close>

theorem Search_first_page:
  "take (Suc (length cs)) (snd (Search g query cs))
     = cs @ [\<lparr>Method = ''POST'', Path = ''transactions/advanced_search_ids'',
              Payload = QueryPayload query\<rparr>] \<and>
   (execute g cs \<lparr>Method = ''POST'', Path = ''transactions/advanced_search_ids'',
                  Payload = QueryPayload query\<rparr> = Inr resp \<and>
    unmarshal_searchResults g (Body resp) = Inr v \<and>
    0 \<le> sint (sr_PageSize v) \<and> length (sr_IDs_Item v) < 2 ^ 63 \<longrightarrow>
      Search g query cs =
        (case fetchTransactions g
                \<lparr>Fields = Fields query @ [MultiField ''ids''
                   (take (min (nat (sint (sr_PageSize v))) (length (sr_IDs_Item v)))
                      (sr_IDs_Item v))]\<rparr>
                (cs @ [\<lparr>Method = ''POST'', Path = ''transactions/advanced_search_ids'',
                        Payload = QueryPayload query\<rparr>]) of
           ((firstPageTransactions, err), cs') \<Rightarrow>
             (Inr (Some \<lparr>TotalItems = len (sr_IDs_Item v),
                         TotalIDs = sr_IDs_Item v,
                         CurrentPageNumber = 1,
                         PageSize = sr_PageSize v,
                         Transactions = firstPageTransactions,
                         searchQuery = query\<rparr>, err), cs')))"
proof (intro conjI impI)
  show "take (Suc (length cs)) (snd (Search g query cs))
     = cs @ [\<lparr>Method = ''POST'', Path = ''transactions/advanced_search_ids'',
              Payload = QueryPayload query\<rparr>]"
    by (simp add: Search_def fetchTransactionIDs_eq fetchTransactions_eq Let_def
        split: sum.splits)
next
  assume a: "execute g cs \<lparr>Method = ''POST'', Path = ''transactions/advanced_search_ids'',
                  Payload = QueryPayload query\<rparr> = Inr resp \<and>
    unmarshal_searchResults g (Body resp) = Inr v \<and>
    0 \<le> sint (sr_PageSize v) \<and> length (sr_IDs_Item v) < 2 ^ 63"
  then have sl: "go_slice (sr_IDs_Item v) 0
       (if len (sr_IDs_Item v) <s sr_PageSize v then len (sr_IDs_Item v) else sr_PageSize v)
     = Inr (take (min (nat (sint (sr_PageSize v))) (length (sr_IDs_Item v))) (sr_IDs_Item v))"
    by (simp add: Search_first_slice)
  from a show "Search g query cs =
        (case fetchTransactions g
                \<lparr>Fields = Fields query @ [MultiField ''ids''
                   (take (min (nat (sint (sr_PageSize v))) (length (sr_IDs_Item v)))
                      (sr_IDs_Item v))]\<rparr>
                (cs @ [\<lparr>Method = ''POST'', Path = ''transactions/advanced_search_ids'',
                        Payload = QueryPayload query\<rparr>]) of
           ((firstPageTransactions, err), cs') \<Rightarrow>
             (Inr (Some \<lparr>TotalItems = len (sr_IDs_Item v),
                         TotalIDs = sr_IDs_Item v,
                         CurrentPageNumber = 1,
                         PageSize = sr_PageSize v,
                         Transactions = firstPageTransactions,
                         searchQuery = query\<rparr>, err), cs'))"
    by (simp add: Search_def fetchTransactionIDs_eq Let_def sl shallowCopy_eq
        AddMultiField_Items_Fields)
qed

theorem Search_first_page_witness:
  "execute (stub_gateway (always 200 ''t1'') \<lparr>sr_PageSize = 2, sr_IDs_Item = [''a'', ''b'', ''c'']\<rparr>) []
       \<lparr>Method = ''POST'', Path = ''transactions/advanced_search_ids'',
        Payload = QueryPayload \<lparr>Fields = [CriterionField ''status'']\<rparr>\<rparr>
     = Inr \<lparr>StatusCode = 200, Body = ''t1''\<rparr> \<and>
   unmarshal_searchResults
       (stub_gateway (always 200 ''t1'') \<lparr>sr_PageSize = 2, sr_IDs_Item = [''a'', ''b'', ''c'']\<rparr>)
       (Body \<lparr>StatusCode = 200, Body = ''t1''\<rparr>)
     = Inr \<lparr>sr_PageSize = 2, sr_IDs_Item = [''a'', ''b'', ''c'']\<rparr> \<and>
   0 \<le> sint (2 :: go_int) \<and> length [''a'', ''b'', ''c''] < (2 :: nat) ^ 63 \<and>
   Search (stub_gateway (always 200 ''t1'') \<lparr>sr_PageSize = 2, sr_IDs_Item = [''a'', ''b'', ''c'']\<rparr>)
       \<lparr>Fields = [CriterionField ''status'']\<rparr> []
     = (Inr (Some \<lparr>TotalItems = 3, TotalIDs = [''a'', ''b'', ''c''], CurrentPageNumber = 1,
                   PageSize = 2, Transactions = [Transaction ''t1''],
                   searchQuery = \<lparr>Fields = [CriterionField ''status'']\<rparr>\<rparr>, None),
        [\<lparr>Method = ''POST'', Path = ''transactions/advanced_search_ids'',
          Payload = QueryPayload \<lparr>Fields = [CriterionField ''status'']\<rparr>\<rparr>,
         \<lparr>Method = ''POST'', Path = ''transactions/advanced_search'',
          Payload = QueryPayload
            \<lparr>Fields = [CriterionField ''status'', MultiField ''ids'' [''a'', ''b'']]\<rparr>\<rparr>])"
  using Search_first_page
    [where g = "stub_gateway (always 200 ''t1'') \<lparr>sr_PageSize = 2, sr_IDs_Item = [''a'', ''b'', ''c'']\<rparr>"
       and cs = "[]" and query = "\<lparr>Fields = [CriterionField ''status'']\<rparr>"
       and resp = "\<lparr>StatusCode = 200, Body = ''t1''\<rparr>"
       and v = "\<lparr>sr_PageSize = 2, sr_IDs_Item = [''a'', ''b'', ''c'']\<rparr>"]
  by (simp add: stub_gateway_def always_def fetchTransactions_def do_execute_def len_def)

text \<open>
  C4 as stated fails when the remote service answers with a negative page size: the
  slice expression \<open>ids[:endOffset]\<close> panics and no result is returned.
\<close>

theorem Search_negative_page_size_counterexample:
  "Search (stub_gateway (always 200 ''t1'') \<lparr>sr_PageSize = - 1, sr_IDs_Item = [''a'', ''b'', ''c'']\<rparr>)
       \<lparr>Fields = [CriterionField ''status'']\<rparr> []
     = (Inl SliceBoundsOutOfRange,
        [\<lparr>Method = ''POST'', Path = ''transactions/advanced_search_ids'',
          Payload = QueryPayload \<lparr>Fields = [CriterionField ''status'']\<rparr>\<rparr>])"
  by (simp add: run_defs)

subsection \<open>All pages together\<close>

lemma later_pages_Nil: "later_pages p [] = []"
  by (simp add: later_pages.simps)

lemma later_pages_Cons:
  "0 < p \<Longrightarrow> xs \<noteq> [] \<Longrightarrow> later_pages p xs = take p xs # later_pages p (drop p xs)"
  by (subst later_pages.simps) simp

lemma concat_later_pages: "0 < p \<Longrightarrow> concat (later_pages p xs) = xs"
proof (induction p xs rule: later_pages.induct)
  case (1 p xs)
  show ?case
  proof (cases "xs = []")
    case True
    then show ?thesis by (simp add: later_pages_Nil)
  next
    case False
    with 1 show ?thesis by (simp add: later_pages_Cons)
  qed
qed

lemma nth_later_pages:
  "0 < p \<Longrightarrow> k < length (later_pages p xs) \<Longrightarrow> later_pages p xs ! k = take p (drop (k * p) xs)"
proof (induction p xs arbitrary: k rule: later_pages.induct)
  case (1 p xs)
  show ?case
  proof (cases "xs = []")
    case True
    with 1 show ?thesis by (simp add: later_pages_Nil)
  next
    case False
    with "1.prems" have lp: "later_pages p xs = take p xs # later_pages p (drop p xs)"
      by (simp add: later_pages_Cons)
    show ?thesis
    proof (cases k)
      case 0
      then show ?thesis by (simp add: lp)
    next
      case (Suc j)
      with "1.prems" lp have "j < length (later_pages p (drop p xs))" by simp
      with "1.IH" [of j] "1.prems" False
      have "later_pages p (drop p xs) ! j = take p (drop (j * p) (drop p xs))" by simp
      then show ?thesis by (simp add: lp Suc add.commute)
    qed
  qed
qed

lemma concat_all_pages: "0 < p \<Longrightarrow> concat (all_pages p xs) = xs"
  by (simp add: all_pages_def concat_later_pages)

lemma nth_all_pages:
  "0 < p \<Longrightarrow> k < length (all_pages p xs) \<Longrightarrow> all_pages p xs ! k = take p (drop (k * p) xs)"
proof (cases k)
  case 0
  then show ?thesis by (simp add: all_pages_def)
next
  case (Suc j)
  assume "0 < p" "k < length (all_pages p xs)"
  with Suc show ?thesis
    by (simp add: all_pages_def nth_later_pages add.commute)
qed


lemma SearchNext_past_len:
  "len (TotalIDs result) \<le>s next_startOffset result \<Longrightarrow>
   SearchNext g result cs = (Inr (None, None), cs)"
proof -
  assume "len (TotalIDs result) \<le>s next_startOffset result"
  with next_endOffset_le_len [of result]
  have "next_endOffset result \<le>s next_startOffset result"
    by (simp add: word_sle_eq)
  then show ?thesis by (simp add: SearchNext_offsets)
qed

lemma SearchNext_step_terminal:
  assumes "0 \<le> sint (CurrentPageNumber result)" "0 < sint (PageSize result)"
    and "sint (CurrentPageNumber result) * sint (PageSize result) < 2 ^ 63"
    and "int (length (TotalIDs result)) \<le> sint (CurrentPageNumber result) * sint (PageSize result)"
    and "length (TotalIDs result) < 2 ^ 63"
  shows "SearchNext g result cs = (Inr (None, None), cs)"
proof -
  have "0 \<le> sint (CurrentPageNumber result) * sint (PageSize result)"
    using assms(1,2) by simp
  then have "sint (next_startOffset result)
      = sint (CurrentPageNumber result) * sint (PageSize result)"
    using assms(3) by (simp add: next_startOffset_def sint_mult_exact)
  with assms(4,5) have "len (TotalIDs result) \<le>s next_startOffset result"
    by (simp add: word_sle_eq sint_len)
  then show ?thesis by (rule SearchNext_past_len)
qed

lemma take_min_length: "take (min a (length xs)) xs = take a xs"
  by (cases "a \<le> length xs") (simp_all add: min_def)

lemma SearchNext_step_page:
  assumes "0 \<le> sint (CurrentPageNumber result)" "0 < sint (PageSize result)"
    and "sint (CurrentPageNumber result) * sint (PageSize result)
           < int (length (TotalIDs result))"
    and "(sint (CurrentPageNumber result) + 1) * sint (PageSize result) < 2 ^ 63"
    and "length (TotalIDs result) < 2 ^ 63"
  shows "SearchNext g result cs =
        (case fetchTransactions g
                \<lparr>Fields = Fields (searchQuery result) @ [MultiField ''ids''
                   (take (nat (sint (PageSize result)))
                      (drop (nat (sint (CurrentPageNumber result) * sint (PageSize result)))
                         (TotalIDs result)))]\<rparr> cs of
           ((ts, err), cs') \<Rightarrow>
             (Inr (Some \<lparr>TotalItems = TotalItems result,
                         TotalIDs = TotalIDs result,
                         CurrentPageNumber = CurrentPageNumber result + 1,
                         PageSize = PageSize result,
                         Transactions = ts,
                         searchQuery = searchQuery result\<rparr>, err), cs'))"
proof -
  let ?K = "sint (CurrentPageNumber result)" and ?P = "sint (PageSize result)"
  let ?ids = "TotalIDs result"
  have s: "sint (next_startOffset result) = ?K * ?P"
    and e: "sint (next_endOffset result) = min ((?K + 1) * ?P) (int (length ?ids))"
    using assms next_offsets_exact [of result]
    by (simp_all add: spec_page_start_def spec_page_end_def)
  have s0: "0 \<le> sint (next_startOffset result)"
    unfolding s using assms(1,2) by simp
  have lt: "?K * ?P < (?K + 1) * ?P"
    using assms(2) by (simp add: algebra_simps)
  have nt: "\<not> next_endOffset result \<le>s next_startOffset result"
    using lt assms(3) by (simp add: word_sle_eq s e)
  have d: "length (drop (nat (?K * ?P)) ?ids) = length ?ids - nat (?K * ?P)"
    by simp
  have "nat (min ((?K + 1) * ?P) (int (length ?ids)) - ?K * ?P)
        = min (nat ?P) (length (drop (nat (?K * ?P)) ?ids))"
  proof -
    have "(?K + 1) * ?P - ?K * ?P = ?P" by (simp add: algebra_simps)
    then have "min ((?K + 1) * ?P) (int (length ?ids)) - ?K * ?P
          = min ?P (int (length ?ids) - ?K * ?P)"
      by (simp add: min_def)
    moreover have "0 \<le> ?K * ?P" using assms(1,2) by simp
    ultimately show ?thesis
      using assms(2,3) by (simp add: min_def) linarith
  qed
  then have sl: "take (nat (sint (next_endOffset result) - sint (next_startOffset result)))
            (drop (nat (sint (next_startOffset result))) ?ids)
        = take (nat ?P) (drop (nat (?K * ?P)) ?ids)"
    unfolding s e by (simp only: take_min_length)
  show ?thesis
    using SearchNext_fetch_eq [OF s0 nt assms(5), of g cs] unfolding sl .
qed


lemma iterate_SearchNext_calls:
  assumes "0 < sint (PageSize result)" "1 \<le> sint (CurrentPageNumber result)"
    and "sint (CurrentPageNumber result) = 1 \<or>
         (sint (CurrentPageNumber result) - 1) * sint (PageSize result)
           < int (length (TotalIDs result))"
    and "length (TotalIDs result) < 2 ^ 62"
    and "length (drop (nat (sint (CurrentPageNumber result) * sint (PageSize result)))
           (TotalIDs result)) < fuel"
  shows "\<exists>rs. iterate_SearchNext fuel g result cs =
           Some (Inr rs,
                 cs @ map (page_request (searchQuery result))
                        (later_pages (nat (sint (PageSize result)))
                           (drop (nat (sint (CurrentPageNumber result) * sint (PageSize result)))
                              (TotalIDs result))))"
  using assms
proof (induction fuel arbitrary: result cs)
  case 0
  then show ?case by simp
next
  case (Suc fuel)
  let ?K = "sint (CurrentPageNumber result)" and ?P = "sint (PageSize result)"
  let ?ids = "TotalIDs result" and ?q = "searchQuery result"
  have P63: "?P < 2 ^ 63" using sint_lt [of "PageSize result"] by simp
  have n63: "length ?ids < 2 ^ 63" using Suc.prems(4) by simp
  have KP0: "0 \<le> ?K * ?P" using Suc.prems(1,2) by simp
  have KP: "?K * ?P < 2 ^ 63"
  proof (cases "?K = 1")
    case True
    with P63 show ?thesis by simp
  next
    case False
    with Suc.prems(3) have a: "(?K - 1) * ?P < int (length ?ids)" by simp
    from False Suc.prems(2) have "1 \<le> ?K - 1" by simp
    with Suc.prems(1) have "?P * 1 \<le> ?P * (?K - 1)"
      by (intro mult_left_mono) simp_all
    with a have "?P < int (length ?ids)" by (simp add: mult.commute)
    moreover have "?K * ?P = (?K - 1) * ?P + ?P" by (simp add: algebra_simps)
    ultimately show ?thesis using a Suc.prems(4) by simp
  qed
  show ?case
  proof (cases "int (length ?ids) \<le> ?K * ?P")
    case True
    have t: "SearchNext g result cs = (Inr (None, None), cs)"
      using Suc.prems(1,2) KP True n63 by (intro SearchNext_step_terminal) simp_all
    from True KP0 have "drop (nat (?K * ?P)) ?ids = []" by simp
    with t show ?thesis by (simp add: later_pages_Nil)
  next
    case False
    then have lt: "?K * ?P < int (length ?ids)" by simp
    have "?P * 1 \<le> ?P * ?K"
      using Suc.prems(1,2) by (intro mult_left_mono) simp_all
    with lt have Pn: "?P < int (length ?ids)" by (simp add: mult.commute)
    have K1: "(?K + 1) * ?P = ?K * ?P + ?P" by (simp add: algebra_simps)
    have K1P: "(?K + 1) * ?P < 2 ^ 63"
      unfolding K1 using lt Pn Suc.prems(4) by simp
    let ?page = "take (nat ?P) (drop (nat (?K * ?P)) ?ids)"
    let ?f = "fetchTransactions g \<lparr>Fields = Fields ?q @ [MultiField ''ids'' ?page]\<rparr> cs"
    have sndf: "snd ?f = cs @ [page_request ?q ?page]"
      by (simp add: fetchTransactions_eq page_request_def)
    obtain ts err where fstf: "fst ?f = (ts, err)"
      by (cases "fst ?f")
    have f: "?f = ((ts, err), cs @ [page_request ?q ?page])"
      using sndf fstf by (simp add: prod_eq_iff)
    let ?r = "\<lparr>TotalItems = TotalItems result, TotalIDs = ?ids,
                CurrentPageNumber = CurrentPageNumber result + 1,
                PageSize = PageSize result, Transactions = ts, searchQuery = ?q\<rparr>"
    have sn: "SearchNext g result cs = (Inr (Some ?r, err), cs @ [page_request ?q ?page])"
      using SearchNext_step_page [of result g cs] Suc.prems(1,2) lt K1P n63
      by (simp add: f)
    have "?K * 1 \<le> ?K * ?P"
      using Suc.prems(1,2) by (intro mult_left_mono) simp_all
    with lt Suc.prems(4) have "?K < 2 ^ 63 - 1" by simp
    then have K': "sint (CurrentPageNumber result + 1) = ?K + 1"
      by (rule sint_succ_exact)
    have nK: "nat ((?K + 1) * ?P) = nat (?K * ?P) + nat ?P"
      unfolding K1 using KP0 Suc.prems(1) by (simp add: nat_add_distrib)
    have fuel: "length (drop (nat ((?K + 1) * ?P)) ?ids) < fuel"
      using Suc.prems(5) lt Suc.prems(1) KP0 unfolding nK by simp
    have "\<exists>rs. iterate_SearchNext fuel g ?r (cs @ [page_request ?q ?page]) =
           Some (Inr rs,
                 (cs @ [page_request ?q ?page]) @ map (page_request (searchQuery ?r))
                        (later_pages (nat (sint (PageSize ?r)))
                           (drop (nat (sint (CurrentPageNumber ?r) * sint (PageSize ?r)))
                              (TotalIDs ?r))))"
    proof (rule Suc.IH)
      show "0 < sint (PageSize ?r)" using Suc.prems(1) by simp
      show "1 \<le> sint (CurrentPageNumber ?r)" using Suc.prems(2) by (simp add: K')
      show "sint (CurrentPageNumber ?r) = 1 \<or>
         (sint (CurrentPageNumber ?r) - 1) * sint (PageSize ?r) < int (length (TotalIDs ?r))"
        using lt by (simp add: K')
      show "length (TotalIDs ?r) < 2 ^ 62" using Suc.prems(4) by simp
      show "length (drop (nat (sint (CurrentPageNumber ?r) * sint (PageSize ?r)))
           (TotalIDs ?r)) < fuel"
        using fuel by (simp add: K')
    qed
    then obtain rs where ih: "iterate_SearchNext fuel g ?r (cs @ [page_request ?q ?page]) =
           Some (Inr rs,
                 cs @ page_request ?q ?page # map (page_request ?q)
                        (later_pages (nat ?P) (drop (nat ((?K + 1) * ?P)) ?ids)))"
      by (auto simp add: K')
    have ne: "drop (nat (?K * ?P)) ?ids \<noteq> []" using lt KP0 by simp
    have P0: "0 < nat ?P" using Suc.prems(1) by simp
    have dd: "drop (nat ?P) (drop (nat (?K * ?P)) ?ids) = drop (nat ((?K + 1) * ?P)) ?ids"
      unfolding nK by (simp add: add.commute)
    have lp: "later_pages (nat ?P) (drop (nat (?K * ?P)) ?ids)
        = ?page # later_pages (nat ?P) (drop (nat ((?K + 1) * ?P)) ?ids)"
      using later_pages_Cons [OF P0 ne] unfolding dd .
    show ?thesis
      by (simp add: sn ih lp)
  qed
qed

text \<open>
  C6: for every page size above 0 and every ID list that the ID search returns,
  \<open>Search\<close> followed by \<open>SearchNext\<close> until it returns nil terminates without a panic
  and issues, after the ID search, exactly one page request per page of the list, in
  order. The pages are the consecutive pieces of the list: page \<open>k + 1\<close> holds the
  IDs at the positions from \<open>k * pageSize\<close>, at most \<open>pageSize\<close> of them, so the pages
  are pairwise disjoint and in list order, and their concatenation is the full ID
  list. (An ID list has fewer than \<open>2 ^ 62\<close> elements: each takes 16 bytes of a 64-bit
  address space.)
\<close>

theorem Search_iteration_visits_every_ID:
  "execute g cs \<lparr>Method = ''POST'', Path = ''transactions/advanced_search_ids'',
                 Payload = QueryPayload query\<rparr> = Inr resp \<and>
   unmarshal_searchResults g (Body resp) = Inr v \<and>
   0 < sint (sr_PageSize v) \<and> length (sr_IDs_Item v) < 2 ^ 62 \<and>
   length (sr_IDs_Item v) < fuel \<longrightarrow>
     (\<exists>rs. Search_all_pages fuel g query cs =
        Some (Inr rs,
              cs @ \<lparr>Method = ''POST'', Path = ''transactions/advanced_search_ids'',
                     Payload = QueryPayload query\<rparr>
                 # map (page_request query)
                       (all_pages (nat (sint (sr_PageSize v))) (sr_IDs_Item v)))) \<and>
     concat (all_pages (nat (sint (sr_PageSize v))) (sr_IDs_Item v)) = sr_IDs_Item v \<and>
     (\<forall>k < length (all_pages (nat (sint (sr_PageSize v))) (sr_IDs_Item v)).
        all_pages (nat (sint (sr_PageSize v))) (sr_IDs_Item v) ! k
          = take (nat (sint (sr_PageSize v)))
              (drop (k * nat (sint (sr_PageSize v))) (sr_IDs_Item v)))"
proof (intro impI conjI)
  let ?P = "sint (sr_PageSize v)" and ?ids = "sr_IDs_Item v"
  let ?ids_req = "\<lparr>Method = ''POST'', Path = ''transactions/advanced_search_ids'',
                    Payload = QueryPayload query\<rparr>"
  assume a: "execute g cs ?ids_req = Inr resp \<and>
   unmarshal_searchResults g (Body resp) = Inr v \<and>
   0 < ?P \<and> length ?ids < 2 ^ 62 \<and> length ?ids < fuel"
  then have P0: "0 < nat ?P" by simp
  show "concat (all_pages (nat ?P) ?ids) = ?ids"
    using P0 by (rule concat_all_pages)
  show "\<forall>k < length (all_pages (nat ?P) ?ids).
        all_pages (nat ?P) ?ids ! k = take (nat ?P) (drop (k * nat ?P) ?ids)"
    using P0 by (simp add: nth_all_pages)
  let ?first = "take (nat ?P) ?ids"
  let ?f = "fetchTransactions g \<lparr>Fields = Fields query @ [MultiField ''ids'' ?first]\<rparr>
              (cs @ [?ids_req])"
  have sndf: "snd ?f = cs @ [?ids_req, page_request query ?first]"
    by (simp add: fetchTransactions_eq page_request_def)
  obtain ts err where fstf: "fst ?f = (ts, err)"
    by (cases "fst ?f")
  have f: "?f = ((ts, err), cs @ [?ids_req, page_request query ?first])"
    using sndf fstf by (simp add: prod_eq_iff)
  let ?r = "\<lparr>TotalItems = len ?ids, TotalIDs = ?ids, CurrentPageNumber = 1,
              PageSize = sr_PageSize v, Transactions = ts, searchQuery = query\<rparr>"
  from a have n63: "length ?ids < 2 ^ 63" by simp
  have s: "Search g query cs = (Inr (Some ?r, err), cs @ [?ids_req, page_request query ?first])"
    using Search_fetch_eq [of g cs query resp v] a n63
    by (simp add: take_min_length f)
  have "\<exists>rs. iterate_SearchNext fuel g ?r (cs @ [?ids_req, page_request query ?first]) =
           Some (Inr rs,
                 (cs @ [?ids_req, page_request query ?first])
                   @ map (page_request (searchQuery ?r))
                        (later_pages (nat (sint (PageSize ?r)))
                           (drop (nat (sint (CurrentPageNumber ?r) * sint (PageSize ?r)))
                              (TotalIDs ?r))))"
  proof (rule iterate_SearchNext_calls)
    show "0 < sint (PageSize ?r)" using a by simp
    show "1 \<le> sint (CurrentPageNumber ?r)" by simp
    show "sint (CurrentPageNumber ?r) = 1 \<or>
         (sint (CurrentPageNumber ?r) - 1) * sint (PageSize ?r) < int (length (TotalIDs ?r))"
      by simp
    show "length (TotalIDs ?r) < 2 ^ 62" using a by simp
    from a have "length ?ids - nat ?P < fuel" by linarith
    then show "length (drop (nat (sint (CurrentPageNumber ?r) * sint (PageSize ?r)))
           (TotalIDs ?r)) < fuel"
      by simp
  qed
  then obtain rs where it: "iterate_SearchNext fuel g ?r
        (cs @ [?ids_req, page_request query ?first]) =
           Some (Inr rs,
                 cs @ ?ids_req # page_request query ?first
                   # map (page_request query) (later_pages (nat ?P) (drop (nat ?P) ?ids)))"
    by auto
  show "\<exists>rs. Search_all_pages fuel g query cs =
        Some (Inr rs, cs @ ?ids_req # map (page_request query) (all_pages (nat ?P) ?ids))"
    by (simp add: Search_all_pages_def s it all_pages_def)
qed

theorem Search_iteration_visits_every_ID_witness:
  "execute (stub_gateway (always 200 ''t1'') \<lparr>sr_PageSize = 2, sr_IDs_Item = [''a'', ''b'', ''c'']\<rparr>) []
       \<lparr>Method = ''POST'', Path = ''transactions/advanced_search_ids'',
        Payload = QueryPayload \<lparr>Fields = []\<rparr>\<rparr>
     = Inr \<lparr>StatusCode = 200, Body = ''t1''\<rparr> \<and>
   0 < sint (2 :: go_int) \<and> length [''a'', ''b'', ''c''] < (2 :: nat) ^ 62 \<and>
   length [''a'', ''b'', ''c''] < Suc (Suc (Suc (Suc 0))) \<and>
   all_pages (nat (sint (2 :: go_int))) [''a'', ''b'', ''c''] = [[''a'', ''b''], [''c'']] \<and>
   Search_all_pages (Suc (Suc (Suc (Suc 0))))
       (stub_gateway (always 200 ''t1'') \<lparr>sr_PageSize = 2, sr_IDs_Item = [''a'', ''b'', ''c'']\<rparr>)
       \<lparr>Fields = []\<rparr> []
     = Some (Inr [\<lparr>TotalItems = 3, TotalIDs = [''a'', ''b'', ''c''], CurrentPageNumber = 1,
                   PageSize = 2, Transactions = [Transaction ''t1''],
                   searchQuery = \<lparr>Fields = []\<rparr>\<rparr>,
                  \<lparr>TotalItems = 3, TotalIDs = [''a'', ''b'', ''c''], CurrentPageNumber = 2,
                   PageSize = 2, Transactions = [Transaction ''t1''],
                   searchQuery = \<lparr>Fields = []\<rparr>\<rparr>],
             [\<lparr>Method = ''POST'', Path = ''transactions/advanced_search_ids'',
               Payload = QueryPayload \<lparr>Fields = []\<rparr>\<rparr>,
              \<lparr>Method = ''POST'', Path = ''transactions/advanced_search'',
               Payload = QueryPayload \<lparr>Fields = [MultiField ''ids'' [''a'', ''b'']]\<rparr>\<rparr>,
              \<lparr>Method = ''POST'', Path = ''transactions/advanced_search'',
               Payload = QueryPayload \<lparr>Fields = [MultiField ''ids'' [''c'']]\<rparr>\<rparr>])"
  using Search_iteration_visits_every_ID
    [where g = "stub_gateway (always 200 ''t1'') \<lparr>sr_PageSize = 2, sr_IDs_Item = [''a'', ''b'', ''c'']\<rparr>"
       and cs = "[]" and query = "\<lparr>Fields = []\<rparr>"
       and resp = "\<lparr>StatusCode = 200, Body = ''t1''\<rparr>"
       and v = "\<lparr>sr_PageSize = 2, sr_IDs_Item = [''a'', ''b'', ''c'']\<rparr>"
       and fuel = "Suc (Suc (Suc (Suc 0)))"]
  by (simp add: run_defs Search_all_pages_def all_pages_def later_pages_Cons later_pages_Nil)

subsection \<open>What a page fetch keeps and what it requests\<close>

text \<open>
  C8, as amended: for every input result that is not terminal and whose computed
  start offset is not negative, \<open>SearchNext\<close> returns a result with the \<open>TotalItems\<close>,
  \<open>TotalIDs\<close>, \<open>PageSize\<close> and search query of the input and the input's
  \<open>CurrentPageNumber\<close> plus 1. Every page result that \<open>SearchNext\<close> returns at all has
  these fields. The one remaining field of the input, \<open>Transactions\<close>, is not
  consulted: replacing it changes nothing.
\<close>

theorem SearchNext_frame:
  "(0 \<le> sint (next_startOffset result) \<and> \<not> next_endOffset result \<le>s next_startOffset result \<and>
    length (TotalIDs result) < 2 ^ 63 \<longrightarrow>
      (\<exists>ts err cs'.
         SearchNext g result cs =
           (Inr (Some \<lparr>TotalItems = TotalItems result,
                       TotalIDs = TotalIDs result,
                       CurrentPageNumber = CurrentPageNumber result + 1,
                       PageSize = PageSize result,
                       Transactions = ts,
                       searchQuery = searchQuery result\<rparr>, err), cs'))) \<and>
   (SearchNext g result cs = (Inr (Some r', err), cs') \<longrightarrow>
      TotalItems r' = TotalItems result \<and> TotalIDs r' = TotalIDs result \<and>
      PageSize r' = PageSize result \<and> searchQuery r' = searchQuery result \<and>
      CurrentPageNumber r' = CurrentPageNumber result + 1) \<and>
   SearchNext g (result\<lparr>Transactions := ts0\<rparr>) cs = SearchNext g result cs"
proof (intro conjI impI)
  assume a: "0 \<le> sint (next_startOffset result) \<and>
    \<not> next_endOffset result \<le>s next_startOffset result \<and> length (TotalIDs result) < 2 ^ 63"
  let ?f = "fetchTransactions g
              \<lparr>Fields = Fields (searchQuery result) @ [MultiField ''ids''
                 (take (nat (sint (next_endOffset result) - sint (next_startOffset result)))
                    (drop (nat (sint (next_startOffset result))) (TotalIDs result)))]\<rparr> cs"
  obtain ts err cs' where f: "?f = ((ts, err), cs')"
    by (cases ?f) auto
  from a have "SearchNext g result cs =
           (Inr (Some \<lparr>TotalItems = TotalItems result,
                       TotalIDs = TotalIDs result,
                       CurrentPageNumber = CurrentPageNumber result + 1,
                       PageSize = PageSize result,
                       Transactions = ts,
                       searchQuery = searchQuery result\<rparr>, err), cs')"
    by (simp add: SearchNext_fetch_eq f)
  then show "\<exists>ts err cs'.
         SearchNext g result cs =
           (Inr (Some \<lparr>TotalItems = TotalItems result,
                       TotalIDs = TotalIDs result,
                       CurrentPageNumber = CurrentPageNumber result + 1,
                       PageSize = PageSize result,
                       Transactions = ts,
                       searchQuery = searchQuery result\<rparr>, err), cs')"
    by blast
next
  assume "SearchNext g result cs = (Inr (Some r', err), cs')"
  then show "TotalItems r' = TotalItems result" "TotalIDs r' = TotalIDs result"
    "PageSize r' = PageSize result" "searchQuery r' = searchQuery result"
    "CurrentPageNumber r' = CurrentPageNumber result + 1"
    by (auto simp add: SearchNext_offsets split: if_splits sum.splits prod.splits)
next
  show "SearchNext g (result\<lparr>Transactions := ts0\<rparr>) cs = SearchNext g result cs"
    by (simp add: SearchNext_offsets next_startOffset_def next_endOffset_def
        cong: sum.case_cong if_cong)
qed

theorem SearchNext_frame_witness:
  "0 \<le> sint (next_startOffset \<lparr>TotalItems = 3, TotalIDs = [''a'', ''b'', ''c''],
        CurrentPageNumber = 1, PageSize = 2,
        Transactions = [Transaction ''t1'', Transaction ''t2''],
        searchQuery = \<lparr>Fields = [CriterionField ''status'']\<rparr>\<rparr>) \<and>
   \<not> next_endOffset \<lparr>TotalItems = 3, TotalIDs = [''a'', ''b'', ''c''],
        CurrentPageNumber = 1, PageSize = 2,
        Transactions = [Transaction ''t1'', Transaction ''t2''],
        searchQuery = \<lparr>Fields = [CriterionField ''status'']\<rparr>\<rparr>
     \<le>s next_startOffset \<lparr>TotalItems = 3, TotalIDs = [''a'', ''b'', ''c''],
        CurrentPageNumber = 1, PageSize = 2,
        Transactions = [Transaction ''t1'', Transaction ''t2''],
        searchQuery = \<lparr>Fields = [CriterionField ''status'']\<rparr>\<rparr> \<and>
   length [''a'', ''b'', ''c''] < (2 :: nat) ^ 63 \<and>
   SearchNext (stub_gateway (always 200 ''t3'') \<lparr>sr_PageSize = 2, sr_IDs_Item = []\<rparr>)
       \<lparr>TotalItems = 3, TotalIDs = [''a'', ''b'', ''c''], CurrentPageNumber = 1,
        PageSize = 2, Transactions = [Transaction ''t1'', Transaction ''t2''],
        searchQuery = \<lparr>Fields = [CriterionField ''status'']\<rparr>\<rparr> []
     = (Inr (Some \<lparr>TotalItems = 3, TotalIDs = [''a'', ''b'', ''c''], CurrentPageNumber = 2,
                   PageSize = 2, Transactions = [Transaction ''t3''],
                   searchQuery = \<lparr>Fields = [CriterionField ''status'']\<rparr>\<rparr>, None),
        [\<lparr>Method = ''POST'', Path = ''transactions/advanced_search'',
          Payload = QueryPayload
            \<lparr>Fields = [CriterionField ''status'', MultiField ''ids'' [''c'']]\<rparr>\<rparr>])"
  using SearchNext_frame
    [where g = "stub_gateway (always 200 ''t3'') \<lparr>sr_PageSize = 2, sr_IDs_Item = []\<rparr>"
       and result = "\<lparr>TotalItems = 3, TotalIDs = [''a'', ''b'', ''c''], CurrentPageNumber = 1,
          PageSize = 2, Transactions = [Transaction ''t1'', Transaction ''t2''],
          searchQuery = \<lparr>Fields = [CriterionField ''status'']\<rparr>\<rparr>"
       and cs = "[]"
       and r' = "\<lparr>TotalItems = 3, TotalIDs = [''a'', ''b'', ''c''], CurrentPageNumber = 2,
          PageSize = 2, Transactions = [Transaction ''t3''],
          searchQuery = \<lparr>Fields = [CriterionField ''status'']\<rparr>\<rparr>"
       and err = None
       and cs' = "[\<lparr>Method = ''POST'', Path = ''transactions/advanced_search'',
           Payload = QueryPayload
             \<lparr>Fields = [CriterionField ''status'', MultiField ''ids'' [''c'']]\<rparr>\<rparr>]"]
  by (simp add: run_defs)

text \<open>
  C8 as stated, for every input that is not terminal, fails where the start offset is
  negative: with \<open>CurrentPageNumber = -1\<close> and \<open>PageSize = 2\<close> the offsets are -2 and 0,
  and with \<open>CurrentPageNumber = 2\<close> and \<open>PageSize = 2 ^ 62\<close> the start offset wraps
  around to \<open>- (2 ^ 63)\<close>. In both cases the input is not terminal, the slice
  expression panics, and no result is returned.
\<close>

theorem SearchNext_frame_counterexample:
  "\<not> next_endOffset \<lparr>TotalItems = 3, TotalIDs = [''a'', ''b'', ''c''],
        CurrentPageNumber = - 1, PageSize = 2, Transactions = [],
        searchQuery = \<lparr>Fields = []\<rparr>\<rparr>
     \<le>s next_startOffset \<lparr>TotalItems = 3, TotalIDs = [''a'', ''b'', ''c''],
        CurrentPageNumber = - 1, PageSize = 2, Transactions = [],
        searchQuery = \<lparr>Fields = []\<rparr>\<rparr> \<and>
   SearchNext (stub_gateway (always 200 ''t3'') \<lparr>sr_PageSize = 2, sr_IDs_Item = []\<rparr>)
       \<lparr>TotalItems = 3, TotalIDs = [''a'', ''b'', ''c''], CurrentPageNumber = - 1,
        PageSize = 2, Transactions = [], searchQuery = \<lparr>Fields = []\<rparr>\<rparr> []
     = (Inl SliceBoundsOutOfRange, []) \<and>
   \<not> next_endOffset \<lparr>TotalItems = 3, TotalIDs = [''a'', ''b'', ''c''],
        CurrentPageNumber = 2, PageSize = 4611686018427387904, Transactions = [],
        searchQuery = \<lparr>Fields = []\<rparr>\<rparr>
     \<le>s next_startOffset \<lparr>TotalItems = 3, TotalIDs = [''a'', ''b'', ''c''],
        CurrentPageNumber = 2, PageSize = 4611686018427387904, Transactions = [],
        searchQuery = \<lparr>Fields = []\<rparr>\<rparr> \<and>
   SearchNext (stub_gateway (always 200 ''t3'') \<lparr>sr_PageSize = 2, sr_IDs_Item = []\<rparr>)
       \<lparr>TotalItems = 3, TotalIDs = [''a'', ''b'', ''c''], CurrentPageNumber = 2,
        PageSize = 4611686018427387904, Transactions = [],
        searchQuery = \<lparr>Fields = []\<rparr>\<rparr> []
     = (Inl SliceBoundsOutOfRange, [])"
  by (simp add: run_defs)



subsection \<open>Status codes\<close>

text \<open>
  C3, as amended: for each operation that dispatches on the status code (\<open>Create\<close>,
  \<open>Clone\<close>, \<open>SubmitForSettlement\<close>, \<open>Void\<close>, \<open>CancelRelease\<close>, \<open>ReleaseFromEscrow\<close>,
  \<open>HoldInEscrow\<close>, \<open>Refund\<close> and \<open>Find\<close> of the transaction gateway; \<open>Create\<close>, \<open>Update\<close>,
  \<open>Find\<close> and \<open>Delete\<close> of the credit card gateway) and every response that \<open>execute\<close>
  hands back, the operation returns what the response decodes to exactly when the
  status is one it accepts, and otherwise a nil result with an
  \<open>invalidResponseError\<close> carrying that response. \<open>Create\<close> accepts 201 only, \<open>Refund\<close>
  accepts 200 and 201. The search operations (\<open>Search\<close>, \<open>SearchNext\<close>,
  \<open>ExpiringBetweenIDs\<close>, \<open>ExpiringBetweenPage\<close>) do not inspect the status code: they
  behave the same whatever status code each response carries.
\<close>

theorem status_dispatch_policy:
  "(execute g cs \<lparr>Method = ''POST'', Path = ''transactions'',
                  Payload = TransactionPayload tx\<rparr> = Inr resp \<longrightarrow>
      fst (Create g tx cs) =
        (if StatusCode resp = 201 then transaction g resp else (None, Some (InvalidResponseError resp)))) \<and>
   (execute g cs \<lparr>Method = ''POST'', Path = ''transactions/'' @ tid @ ''/clone'',
                  Payload = ClonePayload ctx\<rparr> = Inr resp \<longrightarrow>
      fst (Clone g tid ctx cs) =
        (if StatusCode resp = 201 then transaction g resp else (None, Some (InvalidResponseError resp)))) \<and>
   (execute g cs \<lparr>Method = ''PUT'', Path = ''transactions/'' @ tid @ ''/submit_for_settlement'',
                  Payload = amount_request amount\<rparr> = Inr resp \<longrightarrow>
      fst (SubmitForSettlement g tid amount cs) =
        (if StatusCode resp = 200 then transaction g resp else (None, Some (InvalidResponseError resp)))) \<and>
   (execute g cs \<lparr>Method = ''PUT'', Path = ''transactions/'' @ tid @ ''/void'',
                  Payload = NoPayload\<rparr> = Inr resp \<longrightarrow>
      fst (Void g tid cs) =
        (if StatusCode resp = 200 then transaction g resp else (None, Some (InvalidResponseError resp)))) \<and>
   (execute g cs \<lparr>Method = ''PUT'', Path = ''transactions/'' @ tid @ ''/cancel_release'',
                  Payload = NoPayload\<rparr> = Inr resp \<longrightarrow>
      fst (CancelRelease g tid cs) =
        (if StatusCode resp = 200 then transaction g resp else (None, Some (InvalidResponseError resp)))) \<and>
   (execute g cs \<lparr>Method = ''PUT'', Path = ''transactions/'' @ tid @ ''/release_from_escrow'',
                  Payload = NoPayload\<rparr> = Inr resp \<longrightarrow>
      fst (ReleaseFromEscrow g tid cs) =
        (if StatusCode resp = 200 then transaction g resp else (None, Some (InvalidResponseError resp)))) \<and>
   (execute g cs \<lparr>Method = ''PUT'', Path = ''transactions/'' @ tid @ ''/hold_in_escrow'',
                  Payload = NoPayload\<rparr> = Inr resp \<longrightarrow>
      fst (HoldInEscrow g tid cs) =
        (if StatusCode resp = 200 then transaction g resp else (None, Some (InvalidResponseError resp)))) \<and>
   (execute g cs \<lparr>Method = ''POST'', Path = ''transactions/'' @ tid @ ''/refund'',
                  Payload = amount_request amount\<rparr> = Inr resp \<longrightarrow>
      fst (Refund g tid amount cs) =
        (if StatusCode resp = 200 \<or> StatusCode resp = 201 then transaction g resp else (None, Some (InvalidResponseError resp)))) \<and>
   (execute g cs \<lparr>Method = ''GET'', Path = ''transactions/'' @ tid,
                  Payload = NoPayload\<rparr> = Inr resp \<longrightarrow>
      fst (Find g tid cs) =
        (if StatusCode resp = 200 then transaction g resp else (None, Some (InvalidResponseError resp)))) \<and>
   (execute g cs \<lparr>Method = ''POST'', Path = ''payment_methods'',
                  Payload = CardPayload cc\<rparr> = Inr resp \<longrightarrow>
      fst (CreditCard_Create g cc cs) =
        (if StatusCode resp = 201 then creditCard g resp else (None, Some (InvalidResponseError resp)))) \<and>
   (execute g cs \<lparr>Method = ''PUT'', Path = ''payment_methods/'' @ Token cc,
                  Payload = CardPayload cc\<rparr> = Inr resp \<longrightarrow>
      fst (CreditCard_Update g cc cs) =
        (if StatusCode resp = 200 then creditCard g resp else (None, Some (InvalidResponseError resp)))) \<and>
   (execute g cs \<lparr>Method = ''GET'', Path = ''payment_methods/'' @ token,
                  Payload = NoPayload\<rparr> = Inr resp \<longrightarrow>
      fst (CreditCard_Find g token cs) =
        (if StatusCode resp = 200 then creditCard g resp else (None, Some (InvalidResponseError resp)))) \<and>
   (execute g cs \<lparr>Method = ''DELETE'', Path = ''payment_methods/'' @ Token cc,
                  Payload = NoPayload\<rparr> = Inr resp \<longrightarrow>
      fst (CreditCard_Delete g cc cs) =
        (if StatusCode resp = 200 then None else Some (InvalidResponseError resp))) \<and>
   Search (with_status f g) query cs = Search g query cs \<and>
   SearchNext (with_status f g) result cs = SearchNext g result cs \<and>
   ExpiringBetweenIDs (with_status f g) fromDate toDate cs
     = ExpiringBetweenIDs g fromDate toDate cs \<and>
   ExpiringBetweenPage (with_status f g) fromDate toDate sr page cs
     = ExpiringBetweenPage g fromDate toDate sr page cs"
  by (simp add: Create_eq Clone_eq SubmitForSettlement_eq Void_eq CancelRelease_eq ReleaseFromEscrow_eq HoldInEscrow_eq Refund_eq Find_eq CreditCard_Create_eq CreditCard_Update_eq CreditCard_Find_eq CreditCard_Delete_eq
      Search_with_status SearchNext_with_status ExpiringBetweenIDs_with_status
      ExpiringBetweenPage_with_status)

theorem status_dispatch_policy_witness:
  "(\<forall>req. execute (stub_gateway (always 200 ''t1'') \<lparr>sr_PageSize = 2, sr_IDs_Item = []\<rparr>) [] req
      = Inr \<lparr>StatusCode = 200, Body = ''t1''\<rparr>) \<and>
   fst (Create (stub_gateway (always 200 ''t1'') \<lparr>sr_PageSize = 2, sr_IDs_Item = []\<rparr>) \<lparr>Amount = None\<rparr> []) =
     (None, Some (InvalidResponseError \<lparr>StatusCode = 200, Body = ''t1''\<rparr>)) \<and>
   fst (Clone (stub_gateway (always 200 ''t1'') \<lparr>sr_PageSize = 2, sr_IDs_Item = []\<rparr>) ''t1'' (TransactionCloneRequest ''c'') []) =
     (None, Some (InvalidResponseError \<lparr>StatusCode = 200, Body = ''t1''\<rparr>)) \<and>
   fst (SubmitForSettlement (stub_gateway (always 200 ''t1'') \<lparr>sr_PageSize = 2, sr_IDs_Item = []\<rparr>) ''t1'' [Some (Decimal 100 2)] []) =
     (Some (Transaction ''t1''), None) \<and>
   fst (Void (stub_gateway (always 200 ''t1'') \<lparr>sr_PageSize = 2, sr_IDs_Item = []\<rparr>) ''t1'' []) =
     (Some (Transaction ''t1''), None) \<and>
   fst (CancelRelease (stub_gateway (always 200 ''t1'') \<lparr>sr_PageSize = 2, sr_IDs_Item = []\<rparr>) ''t1'' []) =
     (Some (Transaction ''t1''), None) \<and>
   fst (ReleaseFromEscrow (stub_gateway (always 200 ''t1'') \<lparr>sr_PageSize = 2, sr_IDs_Item = []\<rparr>) ''t1'' []) =
     (Some (Transaction ''t1''), None) \<and>
   fst (HoldInEscrow (stub_gateway (always 200 ''t1'') \<lparr>sr_PageSize = 2, sr_IDs_Item = []\<rparr>) ''t1'' []) =
     (Some (Transaction ''t1''), None) \<and>
   fst (Refund (stub_gateway (always 200 ''t1'') \<lparr>sr_PageSize = 2, sr_IDs_Item = []\<rparr>) ''t1'' [Some (Decimal 100 2)] []) =
     (Some (Transaction ''t1''), None) \<and>
   fst (Find (stub_gateway (always 200 ''t1'') \<lparr>sr_PageSize = 2, sr_IDs_Item = []\<rparr>) ''t1'' []) =
     (Some (Transaction ''t1''), None) \<and>
   fst (CreditCard_Create (stub_gateway (always 200 ''t1'') \<lparr>sr_PageSize = 2, sr_IDs_Item = []\<rparr>) \<lparr>Token = ''tok''\<rparr> []) =
     (None, Some (InvalidResponseError \<lparr>StatusCode = 200, Body = ''t1''\<rparr>)) \<and>
   fst (CreditCard_Update (stub_gateway (always 200 ''t1'') \<lparr>sr_PageSize = 2, sr_IDs_Item = []\<rparr>) \<lparr>Token = ''tok''\<rparr> []) =
     (Some \<lparr>Token = ''t1''\<rparr>, None) \<and>
   fst (CreditCard_Find (stub_gateway (always 200 ''t1'') \<lparr>sr_PageSize = 2, sr_IDs_Item = []\<rparr>) ''tok'' []) =
     (Some \<lparr>Token = ''t1''\<rparr>, None) \<and>
   fst (CreditCard_Delete (stub_gateway (always 200 ''t1'') \<lparr>sr_PageSize = 2, sr_IDs_Item = []\<rparr>) \<lparr>Token = ''tok''\<rparr> []) =
     None"
  using status_dispatch_policy
    [where g = "stub_gateway (always 200 ''t1'') \<lparr>sr_PageSize = 2, sr_IDs_Item = []\<rparr>" and cs = "[]"
       and resp = "\<lparr>StatusCode = 200, Body = ''t1''\<rparr>"
       and tx = "\<lparr>Amount = None\<rparr>" and tid = "''t1''" and ctx = "TransactionCloneRequest ''c''"
       and amount = "[Some (Decimal 100 2)]" and cc = "\<lparr>Token = ''tok''\<rparr>" and token = "''tok''"]
  by (simp add: stub_gateway_def always_def)

text \<open>
  C3 as stated, for every gateway operation, fails on the search operations: they
  never look at the status code. Answered with status 500, \<open>ExpiringBetweenIDs\<close>,
  \<open>Search\<close>, \<open>SearchNext\<close> and \<open>ExpiringBetweenPage\<close> each return a result and a nil
  error.
\<close>

theorem search_ignores_status_counterexample:
  "execute (stub_gateway (always 500 ''e'') \<lparr>sr_PageSize = 0, sr_IDs_Item = []\<rparr>) []
       \<lparr>Method = ''POST'',
        Path = ''/payment_methods/all/expiring_ids?end=012030&start=012030'',
        Payload = NoPayload\<rparr>
     = Inr \<lparr>StatusCode = 500, Body = ''e''\<rparr> \<and>
   ExpiringBetweenIDs (stub_gateway (always 500 ''e'') \<lparr>sr_PageSize = 0, sr_IDs_Item = []\<rparr>) 7 9 []
     = ((Some \<lparr>cs_PageSize = 0, cs_IDs = []\<rparr>, None),
        [\<lparr>Method = ''POST'',
          Path = ''/payment_methods/all/expiring_ids?end=012030&start=012030'',
          Payload = NoPayload\<rparr>]) \<and>
   Search (stub_gateway (always 500 ''e'') \<lparr>sr_PageSize = 0, sr_IDs_Item = []\<rparr>)
       \<lparr>Fields = []\<rparr> []
     = (Inr (Some \<lparr>TotalItems = 0, TotalIDs = [], CurrentPageNumber = 1, PageSize = 0,
                   Transactions = [Transaction ''e''], searchQuery = \<lparr>Fields = []\<rparr>\<rparr>, None),
        [\<lparr>Method = ''POST'', Path = ''transactions/advanced_search_ids'',
          Payload = QueryPayload \<lparr>Fields = []\<rparr>\<rparr>,
         \<lparr>Method = ''POST'', Path = ''transactions/advanced_search'',
          Payload = QueryPayload \<lparr>Fields = [MultiField ''ids'' []]\<rparr>\<rparr>]) \<and>
   SearchNext (stub_gateway (always 500 ''e'') \<lparr>sr_PageSize = 0, sr_IDs_Item = []\<rparr>)
       \<lparr>TotalItems = 3, TotalIDs = [''a'', ''b'', ''c''], CurrentPageNumber = 1,
        PageSize = 2, Transactions = [], searchQuery = \<lparr>Fields = []\<rparr>\<rparr> []
     = (Inr (Some \<lparr>TotalItems = 3, TotalIDs = [''a'', ''b'', ''c''], CurrentPageNumber = 2,
                   PageSize = 2, Transactions = [Transaction ''e''],
                   searchQuery = \<lparr>Fields = []\<rparr>\<rparr>, None),
        [\<lparr>Method = ''POST'', Path = ''transactions/advanced_search'',
          Payload = QueryPayload \<lparr>Fields = [MultiField ''ids'' [''c'']]\<rparr>\<rparr>]) \<and>
   ExpiringBetweenPage (stub_gateway (always 500 ''e'') \<lparr>sr_PageSize = 0, sr_IDs_Item = []\<rparr>)
       7 9 \<lparr>cs_PageSize = 2, cs_IDs = [''a'', ''b'', ''c'']\<rparr> 2 []
     = (Inr (Some \<lparr>cc_TotalItems = 3, cc_TotalIDs = [''a'', ''b'', ''c''],
                   cc_CurrentPageNumber = 2, cc_PageSize = 2,
                   cc_CreditCards = [\<lparr>Token = ''e''\<rparr>]\<rparr>, None),
        [\<lparr>Method = ''POST'',
          Path = ''/payment_methods/all/expiring?end=012030&start=012030'',
          Payload = QueryPayload \<lparr>Fields = [MultiField ''ids'' [''c'']]\<rparr>\<rparr>])"
  by (simp add: run_defs)

subsection \<open>Errors of \<open>execute\<close>\<close>

lemma Create_execute_error:
  "execute g cs \<lparr>Method = ''POST'', Path = ''transactions'',
                  Payload = TransactionPayload tx\<rparr> = Inl e \<longrightarrow>
      Create g tx cs =
        ((None, Some e), cs @ [\<lparr>Method = ''POST'', Path = ''transactions'',
                                 Payload = TransactionPayload tx\<rparr>])"
  by (simp add: Create_eq)

lemma Clone_execute_error:
  "execute g cs \<lparr>Method = ''POST'', Path = ''transactions/'' @ tid @ ''/clone'',
                  Payload = ClonePayload ctx\<rparr> = Inl e \<longrightarrow>
      Clone g tid ctx cs =
        ((None, Some e), cs @ [\<lparr>Method = ''POST'', Path = ''transactions/'' @ tid @ ''/clone'',
                                 Payload = ClonePayload ctx\<rparr>])"
  by (simp add: Clone_eq)

lemma SubmitForSettlement_execute_error:
  "execute g cs \<lparr>Method = ''PUT'', Path = ''transactions/'' @ tid @ ''/submit_for_settlement'',
                  Payload = amount_request amount\<rparr> = Inl e \<longrightarrow>
      SubmitForSettlement g tid amount cs =
        ((None, Some e), cs @ [\<lparr>Method = ''PUT'', Path = ''transactions/'' @ tid @ ''/submit_for_settlement'',
                                 Payload = amount_request amount\<rparr>])"
  by (simp add: SubmitForSettlement_eq)

lemma Void_execute_error:
  "execute g cs \<lparr>Method = ''PUT'', Path = ''transactions/'' @ tid @ ''/void'',
                  Payload = NoPayload\<rparr> = Inl e \<longrightarrow>
      Void g tid cs =
        ((None, Some e), cs @ [\<lparr>Method = ''PUT'', Path = ''transactions/'' @ tid @ ''/void'',
                                 Payload = NoPayload\<rparr>])"
  by (simp add: Void_eq)

lemma CancelRelease_execute_error:
  "execute g cs \<lparr>Method = ''PUT'', Path = ''transactions/'' @ tid @ ''/cancel_release'',
                  Payload = NoPayload\<rparr> = Inl e \<longrightarrow>
      CancelRelease g tid cs =
        ((None, Some e), cs @ [\<lparr>Method = ''PUT'', Path = ''transactions/'' @ tid @ ''/cancel_release'',
                                 Payload = NoPayload\<rparr>])"
  by (simp add: CancelRelease_eq)

lemma ReleaseFromEscrow_execute_error:
  "execute g cs \<lparr>Method = ''PUT'', Path = ''transactions/'' @ tid @ ''/release_from_escrow'',
                  Payload = NoPayload\<rparr> = Inl e \<longrightarrow>
      ReleaseFromEscrow g tid cs =
        ((None, Some e), cs @ [\<lparr>Method = ''PUT'', Path = ''transactions/'' @ tid @ ''/release_from_escrow'',
                                 Payload = NoPayload\<rparr>])"
  by (simp add: ReleaseFromEscrow_eq)

lemma HoldInEscrow_execute_error:
  "execute g cs \<lparr>Method = ''PUT'', Path = ''transactions/'' @ tid @ ''/hold_in_escrow'',
                  Payload = NoPayload\<rparr> = Inl e \<longrightarrow>
      HoldInEscrow g tid cs =
        ((None, Some e), cs @ [\<lparr>Method = ''PUT'', Path = ''transactions/'' @ tid @ ''/hold_in_escrow'',
                                 Payload = NoPayload\<rparr>])"
  by (simp add: HoldInEscrow_eq)

lemma Refund_execute_error:
  "execute g cs \<lparr>Method = ''POST'', Path = ''transactions/'' @ tid @ ''/refund'',
                  Payload = amount_request amount\<rparr> = Inl e \<longrightarrow>
      Refund g tid amount cs =
        ((None, Some e), cs @ [\<lparr>Method = ''POST'', Path = ''transactions/'' @ tid @ ''/refund'',
                                 Payload = amount_request amount\<rparr>])"
  by (simp add: Refund_eq)

lemma Find_execute_error:
  "execute g cs \<lparr>Method = ''GET'', Path = ''transactions/'' @ tid,
                  Payload = NoPayload\<rparr> = Inl e \<longrightarrow>
      Find g tid cs =
        ((None, Some e), cs @ [\<lparr>Method = ''GET'', Path = ''transactions/'' @ tid,
                                 Payload = NoPayload\<rparr>])"
  by (simp add: Find_eq)

lemma CreditCard_Create_execute_error:
  "execute g cs \<lparr>Method = ''POST'', Path = ''payment_methods'',
                  Payload = CardPayload cc\<rparr> = Inl e \<longrightarrow>
      CreditCard_Create g cc cs =
        ((None, Some e), cs @ [\<lparr>Method = ''POST'', Path = ''payment_methods'',
                                 Payload = CardPayload cc\<rparr>])"
  by (simp add: CreditCard_Create_eq)

lemma CreditCard_Update_execute_error:
  "execute g cs \<lparr>Method = ''PUT'', Path = ''payment_methods/'' @ Token cc,
                  Payload = CardPayload cc\<rparr> = Inl e \<longrightarrow>
      CreditCard_Update g cc cs =
        ((None, Some e), cs @ [\<lparr>Method = ''PUT'', Path = ''payment_methods/'' @ Token cc,
                                 Payload = CardPayload cc\<rparr>])"
  by (simp add: CreditCard_Update_eq)

lemma CreditCard_Find_execute_error:
  "execute g cs \<lparr>Method = ''GET'', Path = ''payment_methods/'' @ token,
                  Payload = NoPayload\<rparr> = Inl e \<longrightarrow>
      CreditCard_Find g token cs =
        ((None, Some e), cs @ [\<lparr>Method = ''GET'', Path = ''payment_methods/'' @ token,
                                 Payload = NoPayload\<rparr>])"
  by (simp add: CreditCard_Find_eq)

lemma CreditCard_Delete_execute_error:
  "execute g cs \<lparr>Method = ''DELETE'', Path = ''payment_methods/'' @ Token cc,
                  Payload = NoPayload\<rparr> = Inl e \<longrightarrow>
      CreditCard_Delete g cc cs =
        (Some e, cs @ [\<lparr>Method = ''DELETE'', Path = ''payment_methods/'' @ Token cc,
                                 Payload = NoPayload\<rparr>])"
  by (simp add: CreditCard_Delete_eq)

lemma ExpiringBetweenIDs_execute_error:
  "execute g cs \<lparr>Method = ''POST'',
                  Path = ''/payment_methods/all/expiring_ids?'' @ expiring_qs g fromDate toDate,
                  Payload = NoPayload\<rparr> = Inl e \<longrightarrow>
      ExpiringBetweenIDs g fromDate toDate cs =
        ((None, Some e),
         cs @ [\<lparr>Method = ''POST'',
                Path = ''/payment_methods/all/expiring_ids?'' @ expiring_qs g fromDate toDate,
                Payload = NoPayload\<rparr>])"
  by (simp add: ExpiringBetweenIDs_eq)

lemma Search_ids_execute_error:
  "execute g cs \<lparr>Method = ''POST'', Path = ''transactions/advanced_search_ids'',
                  Payload = QueryPayload query\<rparr> = Inl e \<longrightarrow>
      Search g query cs =
        (Inr (None, Some e),
         cs @ [\<lparr>Method = ''POST'', Path = ''transactions/advanced_search_ids'',
                Payload = QueryPayload query\<rparr>])"
  by (simp add: Search_def fetchTransactionIDs_eq)

lemma Search_page_execute_error:
  "execute g cs \<lparr>Method = ''POST'', Path = ''transactions/advanced_search_ids'',
                  Payload = QueryPayload query\<rparr> = Inr resp \<and>
    unmarshal_searchResults g (Body resp) = Inr v \<and>
    0 \<le> sint (sr_PageSize v) \<and> length (sr_IDs_Item v) < 2 ^ 63 \<and>
    execute g (cs @ [\<lparr>Method = ''POST'', Path = ''transactions/advanced_search_ids'',
                      Payload = QueryPayload query\<rparr>])
      \<lparr>Method = ''POST'', Path = ''transactions/advanced_search'',
       Payload = QueryPayload
         \<lparr>Fields = Fields query @ [MultiField ''ids''
            (take (min (nat (sint (sr_PageSize v))) (length (sr_IDs_Item v)))
               (sr_IDs_Item v))]\<rparr>\<rparr> = Inl e \<longrightarrow>
      Search g query cs =
        (Inr (Some \<lparr>TotalItems = len (sr_IDs_Item v), TotalIDs = sr_IDs_Item v,
                    CurrentPageNumber = 1, PageSize = sr_PageSize v,
                    Transactions = [], searchQuery = query\<rparr>, Some e),
         cs @ [\<lparr>Method = ''POST'', Path = ''transactions/advanced_search_ids'',
                Payload = QueryPayload query\<rparr>,
               \<lparr>Method = ''POST'', Path = ''transactions/advanced_search'',
                Payload = QueryPayload
                  \<lparr>Fields = Fields query @ [MultiField ''ids''
                     (take (min (nat (sint (sr_PageSize v))) (length (sr_IDs_Item v)))
                        (sr_IDs_Item v))]\<rparr>\<rparr>])"
  by (simp add: Search_fetch_eq fetchTransactions_eq)

lemma SearchNext_execute_error:
  "0 \<le> sint (next_startOffset result) \<and>
    \<not> next_endOffset result \<le>s next_startOffset result \<and>
    length (TotalIDs result) < 2 ^ 63 \<and>
    execute g cs
      \<lparr>Method = ''POST'', Path = ''transactions/advanced_search'',
       Payload = QueryPayload
         \<lparr>Fields = Fields (searchQuery result) @ [MultiField ''ids''
            (take (nat (sint (next_endOffset result) - sint (next_startOffset result)))
               (drop (nat (sint (next_startOffset result))) (TotalIDs result)))]\<rparr>\<rparr> = Inl e \<longrightarrow>
      SearchNext g result cs =
        (Inr (Some \<lparr>TotalItems = TotalItems result, TotalIDs = TotalIDs result,
                    CurrentPageNumber = CurrentPageNumber result + 1,
                    PageSize = PageSize result,
                    Transactions = [], searchQuery = searchQuery result\<rparr>, Some e),
         cs @ [\<lparr>Method = ''POST'', Path = ''transactions/advanced_search'',
                Payload = QueryPayload
                  \<lparr>Fields = Fields (searchQuery result) @ [MultiField ''ids''
                     (take (nat (sint (next_endOffset result) - sint (next_startOffset result)))
                        (drop (nat (sint (next_startOffset result))) (TotalIDs result)))]\<rparr>\<rparr>])"
  by (simp add: SearchNext_fetch_eq fetchTransactions_eq)

lemma ExpiringBetweenPage_execute_error:
  "0 \<le> sint (page_startOffset sr page) \<and>
    \<not> page_endOffset sr page \<le>s page_startOffset sr page \<and>
    length (cs_IDs sr) < 2 ^ 63 \<and>
    execute g cs
      \<lparr>Method = ''POST'',
       Path = ''/payment_methods/all/expiring?'' @ expiring_qs g fromDate toDate,
       Payload = QueryPayload
         \<lparr>Fields = [MultiField ''ids''
            (take (nat (sint (page_endOffset sr page) - sint (page_startOffset sr page)))
               (drop (nat (sint (page_startOffset sr page))) (cs_IDs sr)))]\<rparr>\<rparr> = Inl e \<longrightarrow>
      ExpiringBetweenPage g fromDate toDate sr page cs =
        (Inr (Some \<lparr>cc_TotalItems = len (cs_IDs sr), cc_TotalIDs = cs_IDs sr,
                    cc_CurrentPageNumber = page, cc_PageSize = cs_PageSize sr,
                    cc_CreditCards = []\<rparr>, Some e),
         cs @ [\<lparr>Method = ''POST'',
                Path = ''/payment_methods/all/expiring?'' @ expiring_qs g fromDate toDate,
                Payload = QueryPayload
                  \<lparr>Fields = [MultiField ''ids''
                     (take (nat (sint (page_endOffset sr page) - sint (page_startOffset sr page)))
                        (drop (nat (sint (page_startOffset sr page))) (cs_IDs sr)))]\<rparr>\<rparr>])"
  by (simp add: ExpiringBetweenPage_fetch_eq fetchExpiringBetween_eq)

text \<open>
  C7, as amended: no operation retries. Whenever a call of \<open>execute\<close> returns an error,
  the operation returns that error and the failed request is the last one it issues.
  The result is nil, except when the failed call is the page fetch of \<open>Search\<close>,
  \<open>SearchNext\<close> or \<open>ExpiringBetweenPage\<close>: these return the page result with no items
  together with the error.
\<close>

theorem execute_error_ends_operation:
  "(execute g cs \<lparr>Method = ''POST'', Path = ''transactions'',
                  Payload = TransactionPayload tx\<rparr> = Inl e \<longrightarrow>
      Create g tx cs =
        ((None, Some e), cs @ [\<lparr>Method = ''POST'', Path = ''transactions'',
                                 Payload = TransactionPayload tx\<rparr>])) \<and>
   (execute g cs \<lparr>Method = ''POST'', Path = ''transactions/'' @ tid @ ''/clone'',
                  Payload = ClonePayload ctx\<rparr> = Inl e \<longrightarrow>
      Clone g tid ctx cs =
        ((None, Some e), cs @ [\<lparr>Method = ''POST'', Path = ''transactions/'' @ tid @ ''/clone'',
                                 Payload = ClonePayload ctx\<rparr>])) \<and>
   (execute g cs \<lparr>Method = ''PUT'', Path = ''transactions/'' @ tid @ ''/submit_for_settlement'',
                  Payload = amount_request amount\<rparr> = Inl e \<longrightarrow>
      SubmitForSettlement g tid amount cs =
        ((None, Some e), cs @ [\<lparr>Method = ''PUT'', Path = ''transactions/'' @ tid @ ''/submit_for_settlement'',
                                 Payload = amount_request amount\<rparr>])) \<and>
   (execute g cs \<lparr>Method = ''PUT'', Path = ''transactions/'' @ tid @ ''/void'',
                  Payload = NoPayload\<rparr> = Inl e \<longrightarrow>
      Void g tid cs =
        ((None, Some e), cs @ [\<lparr>Method = ''PUT'', Path = ''transactions/'' @ tid @ ''/void'',
                                 Payload = NoPayload\<rparr>])) \<and>
   (execute g cs \<lparr>Method = ''PUT'', Path = ''transactions/'' @ tid @ ''/cancel_release'',
                  Payload = NoPayload\<rparr> = Inl e \<longrightarrow>
      CancelRelease g tid cs =
        ((None, Some e), cs @ [\<lparr>Method = ''PUT'', Path = ''transactions/'' @ tid @ ''/cancel_release'',
                                 Payload = NoPayload\<rparr>])) \<and>
   (execute g cs \<lparr>Method = ''PUT'', Path = ''transactions/'' @ tid @ ''/release_from_escrow'',
                  Payload = NoPayload\<rparr> = Inl e \<longrightarrow>
      ReleaseFromEscrow g tid cs =
        ((None, Some e), cs @ [\<lparr>Method = ''PUT'', Path = ''transactions/'' @ tid @ ''/release_from_escrow'',
                                 Payload = NoPayload\<rparr>])) \<and>
   (execute g cs \<lparr>Method = ''PUT'', Path = ''transactions/'' @ tid @ ''/hold_in_escrow'',
                  Payload = NoPayload\<rparr> = Inl e \<longrightarrow>
      HoldInEscrow g tid cs =
        ((None, Some e), cs @ [\<lparr>Method = ''PUT'', Path = ''transactions/'' @ tid @ ''/hold_in_escrow'',
                                 Payload = NoPayload\<rparr>])) \<and>
   (execute g cs \<lparr>Method = ''POST'', Path = ''transactions/'' @ tid @ ''/refund'',
                  Payload = amount_request amount\<rparr> = Inl e \<longrightarrow>
      Refund g tid amount cs =
        ((None, Some e), cs @ [\<lparr>Method = ''POST'', Path = ''transactions/'' @ tid @ ''/refund'',
                                 Payload = amount_request amount\<rparr>])) \<and>
   (execute g cs \<lparr>Method = ''GET'', Path = ''transactions/'' @ tid,
                  Payload = NoPayload\<rparr> = Inl e \<longrightarrow>
      Find g tid cs =
        ((None, Some e), cs @ [\<lparr>Method = ''GET'', Path = ''transactions/'' @ tid,
                                 Payload = NoPayload\<rparr>])) \<and>
   (execute g cs \<lparr>Method = ''POST'', Path = ''payment_methods'',
                  Payload = CardPayload cc\<rparr> = Inl e \<longrightarrow>
      CreditCard_Create g cc cs =
        ((None, Some e), cs @ [\<lparr>Method = ''POST'', Path = ''payment_methods'',
                                 Payload = CardPayload cc\<rparr>])) \<and>
   (execute g cs \<lparr>Method = ''PUT'', Path = ''payment_methods/'' @ Token cc,
                  Payload = CardPayload cc\<rparr> = Inl e \<longrightarrow>
      CreditCard_Update g cc cs =
        ((None, Some e), cs @ [\<lparr>Method = ''PUT'', Path = ''payment_methods/'' @ Token cc,
                                 Payload = CardPayload cc\<rparr>])) \<and>
   (execute g cs \<lparr>Method = ''GET'', Path = ''payment_methods/'' @ token,
                  Payload = NoPayload\<rparr> = Inl e \<longrightarrow>
      CreditCard_Find g token cs =
        ((None, Some e), cs @ [\<lparr>Method = ''GET'', Path = ''payment_methods/'' @ token,
                                 Payload = NoPayload\<rparr>])) \<and>
   (execute g cs \<lparr>Method = ''DELETE'', Path = ''payment_methods/'' @ Token cc,
                  Payload = NoPayload\<rparr> = Inl e \<longrightarrow>
      CreditCard_Delete g cc cs =
        (Some e, cs @ [\<lparr>Method = ''DELETE'', Path = ''payment_methods/'' @ Token cc,
                                 Payload = NoPayload\<rparr>])) \<and>
   (execute g cs \<lparr>Method = ''POST'',
                  Path = ''/payment_methods/all/expiring_ids?'' @ expiring_qs g fromDate toDate,
                  Payload = NoPayload\<rparr> = Inl e \<longrightarrow>
      ExpiringBetweenIDs g fromDate toDate cs =
        ((None, Some e),
         cs @ [\<lparr>Method = ''POST'',
                Path = ''/payment_methods/all/expiring_ids?'' @ expiring_qs g fromDate toDate,
                Payload = NoPayload\<rparr>])) \<and>
   (execute g cs \<lparr>Method = ''POST'', Path = ''transactions/advanced_search_ids'',
                  Payload = QueryPayload query\<rparr> = Inl e \<longrightarrow>
      Search g query cs =
        (Inr (None, Some e),
         cs @ [\<lparr>Method = ''POST'', Path = ''transactions/advanced_search_ids'',
                Payload = QueryPayload query\<rparr>])) \<and>
   (execute g cs \<lparr>Method = ''POST'', Path = ''transactions/advanced_search_ids'',
                  Payload = QueryPayload query\<rparr> = Inr resp \<and>
    unmarshal_searchResults g (Body resp) = Inr v \<and>
    0 \<le> sint (sr_PageSize v) \<and> length (sr_IDs_Item v) < 2 ^ 63 \<and>
    execute g (cs @ [\<lparr>Method = ''POST'', Path = ''transactions/advanced_search_ids'',
                      Payload = QueryPayload query\<rparr>])
      \<lparr>Method = ''POST'', Path = ''transactions/advanced_search'',
       Payload = QueryPayload
         \<lparr>Fields = Fields query @ [MultiField ''ids''
            (take (min (nat (sint (sr_PageSize v))) (length (sr_IDs_Item v)))
               (sr_IDs_Item v))]\<rparr>\<rparr> = Inl e \<longrightarrow>
      Search g query cs =
        (Inr (Some \<lparr>TotalItems = len (sr_IDs_Item v), TotalIDs = sr_IDs_Item v,
                    CurrentPageNumber = 1, PageSize = sr_PageSize v,
                    Transactions = [], searchQuery = query\<rparr>, Some e),
         cs @ [\<lparr>Method = ''POST'', Path = ''transactions/advanced_search_ids'',
                Payload = QueryPayload query\<rparr>,
               \<lparr>Method = ''POST'', Path = ''transactions/advanced_search'',
                Payload = QueryPayload
                  \<lparr>Fields = Fields query @ [MultiField ''ids''
                     (take (min (nat (sint (sr_PageSize v))) (length (sr_IDs_Item v)))
                        (sr_IDs_Item v))]\<rparr>\<rparr>])) \<and>
   (0 \<le> sint (next_startOffset result) \<and>
    \<not> next_endOffset result \<le>s next_startOffset result \<and>
    length (TotalIDs result) < 2 ^ 63 \<and>
    execute g cs
      \<lparr>Method = ''POST'', Path = ''transactions/advanced_search'',
       Payload = QueryPayload
         \<lparr>Fields = Fields (searchQuery result) @ [MultiField ''ids''
            (take (nat (sint (next_endOffset result) - sint (next_startOffset result)))
               (drop (nat (sint (next_startOffset result))) (TotalIDs result)))]\<rparr>\<rparr> = Inl e \<longrightarrow>
      SearchNext g result cs =
        (Inr (Some \<lparr>TotalItems = TotalItems result, TotalIDs = TotalIDs result,
                    CurrentPageNumber = CurrentPageNumber result + 1,
                    PageSize = PageSize result,
                    Transactions = [], searchQuery = searchQuery result\<rparr>, Some e),
         cs @ [\<lparr>Method = ''POST'', Path = ''transactions/advanced_search'',
                Payload = QueryPayload
                  \<lparr>Fields = Fields (searchQuery result) @ [MultiField ''ids''
                     (take (nat (sint (next_endOffset result) - sint (next_startOffset result)))
                        (drop (nat (sint (next_startOffset result))) (TotalIDs result)))]\<rparr>\<rparr>])) \<and>
   (0 \<le> sint (page_startOffset sr page) \<and>
    \<not> page_endOffset sr page \<le>s page_startOffset sr page \<and>
    length (cs_IDs sr) < 2 ^ 63 \<and>
    execute g cs
      \<lparr>Method = ''POST'',
       Path = ''/payment_methods/all/expiring?'' @ expiring_qs g fromDate toDate,
       Payload = QueryPayload
         \<lparr>Fields = [MultiField ''ids''
            (take (nat (sint (page_endOffset sr page) - sint (page_startOffset sr page)))
               (drop (nat (sint (page_startOffset sr page))) (cs_IDs sr)))]\<rparr>\<rparr> = Inl e \<longrightarrow>
      ExpiringBetweenPage g fromDate toDate sr page cs =
        (Inr (Some \<lparr>cc_TotalItems = len (cs_IDs sr), cc_TotalIDs = cs_IDs sr,
                    cc_CurrentPageNumber = page, cc_PageSize = cs_PageSize sr,
                    cc_CreditCards = []\<rparr>, Some e),
         cs @ [\<lparr>Method = ''POST'',
                Path = ''/payment_methods/all/expiring?'' @ expiring_qs g fromDate toDate,
                Payload = QueryPayload
                  \<lparr>Fields = [MultiField ''ids''
                     (take (nat (sint (page_endOffset sr page) - sint (page_startOffset sr page)))
                        (drop (nat (sint (page_startOffset sr page))) (cs_IDs sr)))]\<rparr>\<rparr>]))"
  by (intro conjI Create_execute_error Clone_execute_error SubmitForSettlement_execute_error
      Void_execute_error CancelRelease_execute_error ReleaseFromEscrow_execute_error
      HoldInEscrow_execute_error Refund_execute_error Find_execute_error
      CreditCard_Create_execute_error CreditCard_Update_execute_error CreditCard_Find_execute_error
      CreditCard_Delete_execute_error ExpiringBetweenIDs_execute_error Search_ids_execute_error
      Search_page_execute_error SearchNext_execute_error ExpiringBetweenPage_execute_error)

theorem execute_error_ends_operation_witness:
  "(\<forall>req. execute (stub_gateway (fails_from 0 200 ''t1'') \<lparr>sr_PageSize = 2, sr_IDs_Item = [''a'', ''b'', ''c'']\<rparr>) [] req
      = Inl (ExecuteError ''timeout'')) \<and>
   Create (stub_gateway (fails_from 0 200 ''t1'') \<lparr>sr_PageSize = 2, sr_IDs_Item = [''a'', ''b'', ''c'']\<rparr>)
       \<lparr>Amount = None\<rparr> []
     = ((None, Some (ExecuteError ''timeout'')),
        [\<lparr>Method = ''POST'', Path = ''transactions'',
          Payload = TransactionPayload \<lparr>Amount = None\<rparr>\<rparr>]) \<and>
   Clone (stub_gateway (fails_from 0 200 ''t1'') \<lparr>sr_PageSize = 2, sr_IDs_Item = [''a'', ''b'', ''c'']\<rparr>)
       ''t1'' (TransactionCloneRequest ''c'') []
     = ((None, Some (ExecuteError ''timeout'')),
        [\<lparr>Method = ''POST'', Path = ''transactions/t1/clone'',
          Payload = ClonePayload (TransactionCloneRequest ''c'')\<rparr>]) \<and>
   SubmitForSettlement (stub_gateway (fails_from 0 200 ''t1'') \<lparr>sr_PageSize = 2, sr_IDs_Item = [''a'', ''b'', ''c'']\<rparr>)
       ''t1'' [] []
     = ((None, Some (ExecuteError ''timeout'')),
        [\<lparr>Method = ''PUT'', Path = ''transactions/t1/submit_for_settlement'',
          Payload = NoPayload\<rparr>]) \<and>
   Void (stub_gateway (fails_from 0 200 ''t1'') \<lparr>sr_PageSize = 2, sr_IDs_Item = [''a'', ''b'', ''c'']\<rparr>)
       ''t1'' []
     = ((None, Some (ExecuteError ''timeout'')),
        [\<lparr>Method = ''PUT'', Path = ''transactions/t1/void'',
          Payload = NoPayload\<rparr>]) \<and>
   CancelRelease (stub_gateway (fails_from 0 200 ''t1'') \<lparr>sr_PageSize = 2, sr_IDs_Item = [''a'', ''b'', ''c'']\<rparr>)
       ''t1'' []
     = ((None, Some (ExecuteError ''timeout'')),
        [\<lparr>Method = ''PUT'', Path = ''transactions/t1/cancel_release'',
          Payload = NoPayload\<rparr>]) \<and>
   ReleaseFromEscrow (stub_gateway (fails_from 0 200 ''t1'') \<lparr>sr_PageSize = 2, sr_IDs_Item = [''a'', ''b'', ''c'']\<rparr>)
       ''t1'' []
     = ((None, Some (ExecuteError ''timeout'')),
        [\<lparr>Method = ''PUT'', Path = ''transactions/t1/release_from_escrow'',
          Payload = NoPayload\<rparr>]) \<and>
   HoldInEscrow (stub_gateway (fails_from 0 200 ''t1'') \<lparr>sr_PageSize = 2, sr_IDs_Item = [''a'', ''b'', ''c'']\<rparr>)
       ''t1'' []
     = ((None, Some (ExecuteError ''timeout'')),
        [\<lparr>Method = ''PUT'', Path = ''transactions/t1/hold_in_escrow'',
          Payload = NoPayload\<rparr>]) \<and>
   Refund (stub_gateway (fails_from 0 200 ''t1'') \<lparr>sr_PageSize = 2, sr_IDs_Item = [''a'', ''b'', ''c'']\<rparr>)
       ''t1'' [] []
     = ((None, Some (ExecuteError ''timeout'')),
        [\<lparr>Method = ''POST'', Path = ''transactions/t1/refund'',
          Payload = NoPayload\<rparr>]) \<and>
   Find (stub_gateway (fails_from 0 200 ''t1'') \<lparr>sr_PageSize = 2, sr_IDs_Item = [''a'', ''b'', ''c'']\<rparr>)
       ''t1'' []
     = ((None, Some (ExecuteError ''timeout'')),
        [\<lparr>Method = ''GET'', Path = ''transactions/t1'',
          Payload = NoPayload\<rparr>]) \<and>
   CreditCard_Create (stub_gateway (fails_from 0 200 ''t1'') \<lparr>sr_PageSize = 2, sr_IDs_Item = [''a'', ''b'', ''c'']\<rparr>)
       \<lparr>Token = ''tok''\<rparr> []
     = ((None, Some (ExecuteError ''timeout'')),
        [\<lparr>Method = ''POST'', Path = ''payment_methods'',
          Payload = CardPayload \<lparr>Token = ''tok''\<rparr>\<rparr>]) \<and>
   CreditCard_Update (stub_gateway (fails_from 0 200 ''t1'') \<lparr>sr_PageSize = 2, sr_IDs_Item = [''a'', ''b'', ''c'']\<rparr>)
       \<lparr>Token = ''tok''\<rparr> []
     = ((None, Some (ExecuteError ''timeout'')),
        [\<lparr>Method = ''PUT'', Path = ''payment_methods/tok'',
          Payload = CardPayload \<lparr>Token = ''tok''\<rparr>\<rparr>]) \<and>
   CreditCard_Find (stub_gateway (fails_from 0 200 ''t1'') \<lparr>sr_PageSize = 2, sr_IDs_Item = [''a'', ''b'', ''c'']\<rparr>)
       ''tok'' []
     = ((None, Some (ExecuteError ''timeout'')),
        [\<lparr>Method = ''GET'', Path = ''payment_methods/tok'',
          Payload = NoPayload\<rparr>]) \<and>
   CreditCard_Delete (stub_gateway (fails_from 0 200 ''t1'') \<lparr>sr_PageSize = 2, sr_IDs_Item = [''a'', ''b'', ''c'']\<rparr>)
       \<lparr>Token = ''tok''\<rparr> []
     = (Some (ExecuteError ''timeout''),
        [\<lparr>Method = ''DELETE'', Path = ''payment_methods/tok'',
          Payload = NoPayload\<rparr>]) \<and>
   ExpiringBetweenIDs (stub_gateway (fails_from 0 200 ''t1'') \<lparr>sr_PageSize = 2, sr_IDs_Item = [''a'', ''b'', ''c'']\<rparr>) 7 9 []
     = ((None, Some (ExecuteError ''timeout'')),
        [\<lparr>Method = ''POST'',
          Path = ''/payment_methods/all/expiring_ids?end=012030&start=012030'',
          Payload = NoPayload\<rparr>]) \<and>
   Search (stub_gateway (fails_from 0 200 ''t1'') \<lparr>sr_PageSize = 2, sr_IDs_Item = [''a'', ''b'', ''c'']\<rparr>) \<lparr>Fields = []\<rparr> []
     = (Inr (None, Some (ExecuteError ''timeout'')),
        [\<lparr>Method = ''POST'', Path = ''transactions/advanced_search_ids'',
          Payload = QueryPayload \<lparr>Fields = []\<rparr>\<rparr>]) \<and>
   Search (stub_gateway (fails_from 1 200 ''t1'') \<lparr>sr_PageSize = 2, sr_IDs_Item = [''a'', ''b'', ''c'']\<rparr>) \<lparr>Fields = []\<rparr> []
     = (Inr (Some \<lparr>TotalItems = 3, TotalIDs = [''a'', ''b'', ''c''], CurrentPageNumber = 1,
                   PageSize = 2, Transactions = [], searchQuery = \<lparr>Fields = []\<rparr>\<rparr>,
             Some (ExecuteError ''timeout'')),
        [\<lparr>Method = ''POST'', Path = ''transactions/advanced_search_ids'',
          Payload = QueryPayload \<lparr>Fields = []\<rparr>\<rparr>,
         \<lparr>Method = ''POST'', Path = ''transactions/advanced_search'',
          Payload = QueryPayload \<lparr>Fields = [MultiField ''ids'' [''a'', ''b'']]\<rparr>\<rparr>]) \<and>
   SearchNext (stub_gateway (fails_from 0 200 ''t1'') \<lparr>sr_PageSize = 2, sr_IDs_Item = [''a'', ''b'', ''c'']\<rparr>)
       \<lparr>TotalItems = 3, TotalIDs = [''a'', ''b'', ''c''], CurrentPageNumber = 1,
        PageSize = 2, Transactions = [], searchQuery = \<lparr>Fields = []\<rparr>\<rparr> []
     = (Inr (Some \<lparr>TotalItems = 3, TotalIDs = [''a'', ''b'', ''c''], CurrentPageNumber = 2,
                   PageSize = 2, Transactions = [], searchQuery = \<lparr>Fields = []\<rparr>\<rparr>,
             Some (ExecuteError ''timeout'')),
        [\<lparr>Method = ''POST'', Path = ''transactions/advanced_search'',
          Payload = QueryPayload \<lparr>Fields = [MultiField ''ids'' [''c'']]\<rparr>\<rparr>]) \<and>
   ExpiringBetweenPage (stub_gateway (fails_from 0 200 ''t1'') \<lparr>sr_PageSize = 2, sr_IDs_Item = [''a'', ''b'', ''c'']\<rparr>) 7 9
       \<lparr>cs_PageSize = 2, cs_IDs = [''a'', ''b'', ''c'']\<rparr> 2 []
     = (Inr (Some \<lparr>cc_TotalItems = 3, cc_TotalIDs = [''a'', ''b'', ''c''],
                   cc_CurrentPageNumber = 2, cc_PageSize = 2, cc_CreditCards = []\<rparr>,
             Some (ExecuteError ''timeout'')),
        [\<lparr>Method = ''POST'',
          Path = ''/payment_methods/all/expiring?end=012030&start=012030'',
          Payload = QueryPayload \<lparr>Fields = [MultiField ''ids'' [''c'']]\<rparr>\<rparr>])"
  using execute_error_ends_operation
    [where g = "stub_gateway (fails_from 0 200 ''t1'') \<lparr>sr_PageSize = 2, sr_IDs_Item = [''a'', ''b'', ''c'']\<rparr>" and cs = "[]"
       and e = "ExecuteError ''timeout''"
       and tx = "\<lparr>Amount = None\<rparr>" and tid = "''t1''" and ctx = "TransactionCloneRequest ''c''"
       and amount = "[]" and cc = "\<lparr>Token = ''tok''\<rparr>" and token = "''tok''"
       and fromDate = 7 and toDate = 9 and query = "\<lparr>Fields = []\<rparr>"
       and result = "\<lparr>TotalItems = 3, TotalIDs = [''a'', ''b'', ''c''], CurrentPageNumber = 1,
        PageSize = 2, Transactions = [], searchQuery = \<lparr>Fields = []\<rparr>\<rparr>"
       and sr = "\<lparr>cs_PageSize = 2, cs_IDs = [''a'', ''b'', ''c'']\<rparr>" and page = 2]
    execute_error_ends_operation
    [where g = "stub_gateway (fails_from 1 200 ''t1'') \<lparr>sr_PageSize = 2, sr_IDs_Item = [''a'', ''b'', ''c'']\<rparr>" and cs = "[]"
       and e = "ExecuteError ''timeout''"
       and query = "\<lparr>Fields = []\<rparr>"
       and resp = "\<lparr>StatusCode = 200, Body = ''t1''\<rparr>"
       and v = "\<lparr>sr_PageSize = 2, sr_IDs_Item = [''a'', ''b'', ''c'']\<rparr>"]
  by (simp add: stub_gateway_def fails_from_def amount_request_def expiring_qs_def
      next_startOffset_def next_endOffset_def page_startOffset_def page_endOffset_def
      len_def word_sle_eq word_sless_alt)

text \<open>
  C7 as stated fails for the page fetch: when the ID search succeeds and the page
  fetch fails, \<open>Search\<close> returns a result that is not nil together with the error.
\<close>

theorem page_fetch_error_counterexample:
  "execute (stub_gateway (fails_from 1 200 ''t1'') \<lparr>sr_PageSize = 2, sr_IDs_Item = [''a'', ''b'', ''c'']\<rparr>)
       [\<lparr>Method = ''POST'', Path = ''transactions/advanced_search_ids'',
         Payload = QueryPayload \<lparr>Fields = []\<rparr>\<rparr>]
       \<lparr>Method = ''POST'', Path = ''transactions/advanced_search'',
        Payload = QueryPayload \<lparr>Fields = [MultiField ''ids'' [''a'', ''b'']]\<rparr>\<rparr>
     = Inl (ExecuteError ''timeout'') \<and>
   Search (stub_gateway (fails_from 1 200 ''t1'') \<lparr>sr_PageSize = 2, sr_IDs_Item = [''a'', ''b'', ''c'']\<rparr>)
       \<lparr>Fields = []\<rparr> []
     = (Inr (Some \<lparr>TotalItems = 3, TotalIDs = [''a'', ''b'', ''c''], CurrentPageNumber = 1,
                   PageSize = 2, Transactions = [], searchQuery = \<lparr>Fields = []\<rparr>\<rparr>,
             Some (ExecuteError ''timeout'')),
        [\<lparr>Method = ''POST'', Path = ''transactions/advanced_search_ids'',
          Payload = QueryPayload \<lparr>Fields = []\<rparr>\<rparr>,
         \<lparr>Method = ''POST'', Path = ''transactions/advanced_search'',
          Payload = QueryPayload \<lparr>Fields = [MultiField ''ids'' [''a'', ''b'']]\<rparr>\<rparr>])"
  by (simp add: run_defs fails_from_def)

subsection \<open>The gateway of package \<open>src/braintree\<close>\<close>

text \<open>
  C10: for every configuration and every request, \<open>Sale\<close> on the transaction gateway
  of a new gateway returns the zero \<open>TransactionResponse\<close>, and \<open>IsSuccess\<close> is false
  on it and on every \<open>TransactionResponse\<close>.
\<close>

theorem Sale_zero_response_not_success:
  "Sale (bt_Transaction (NewGateway c)) request = TransactionResponse \<and>
   IsSuccess (Sale (bt_Transaction (NewGateway c)) request) = False \<and>
   (\<forall>r. IsSuccess r = False)"
  by (simp add: Sale_def IsSuccess_def)

end
